theory Spec2Isabelle
  imports Complex_Main
begin

section \<open>Transformer layers (Layers.py): a shallow embedding\<close>

text \<open>
  Tensors of the attention code are nested lists of reals: a matrix is a list of rows,
  a 3-D tensor a list of matrices, a 4-D tensor a list of 3-D tensors. Finite values are
  exact reals; rounding is not modelled. Integer tensors (position indices) are nested
  lists of \<open>int\<close>. Sizes read from a tensor are \<open>nat\<close>; a Python integer
  argument such as \<open>max_relative_position\<close> is an \<open>int\<close>.

  The layers that add tensors of any rank (\<open>LayerNorm\<close>, \<open>SublayerConnection\<close>,
  \<open>PositionalEncoding.forward\<close>) work on a second representation, a shape with the
  elements in row-major order, whose elements may also be an infinity or NaN; there the
  broadcasting of the tensor library and its shape errors are part of the model.

  An exception of the source or of the library is a value of type \<open>error\<close>; a function
  that can raise returns \<open>error + 'a\<close>. The state of the global random number
  generator is passed explicitly.
\<close>

datatype error = AssertionError | RuntimeError | IndexError | ZeroDivisionError

type_synonym matrix = "real list list"
type_synonym tensor3 = "matrix list"
type_synonym tensor4 = "tensor3 list"

subsection \<open>Relative position matrix\<close>

text \<open>\<open>torch.arange(n)\<close>: the integers \<open>0, ..., n - 1\<close>.\<close>

definition arange :: "nat \<Rightarrow> int list" where
  "arange n = map int [0..<n]"

text \<open>
  \<open>torch.clamp(x, min, max)\<close> computes \<open>min(max(x, min), max)\<close>; when the lower
  bound exceeds the upper one every element becomes the upper bound.
\<close>

definition clamp :: "int \<Rightarrow> int \<Rightarrow> int \<Rightarrow> int" where
  "clamp x lo hi = min (max x lo) hi"

text \<open>
  The position tensors hold 64-bit signed integers: arithmetic on them wraps around, and
  the library refuses, with a RuntimeError, a Python integer that does not fit into 64
  bits where it expects a scalar for such a tensor.
\<close>

definition fits_int64 :: "int \<Rightarrow> bool" where
  "fits_int64 x \<longleftrightarrow> - (2 ^ 63) \<le> x \<and> x < 2 ^ 63"

definition wrap64 :: "int \<Rightarrow> int" where
  "wrap64 x = (x + 2 ^ 63) mod 2 ^ 64 - 2 ^ 63"

text \<open>
  \<open>MultiHeadedAttention_RPR._generate_relative_positions_matrix\<close>. The two range
  vectors are the same tensor; \<open>range_vec_k.unsqueeze(0) - range_vec_q.unsqueeze(-1)\<close>
  has the entry \<open>k - q\<close> in row \<open>q\<close> and column \<open>k\<close>. The bounds
  \<open>-max_relative_position\<close> and \<open>max_relative_position\<close> are Python integers,
  handed to \<open>torch.clamp\<close> as scalars; the last line adds the scalar to the tensor.
  A length is the size of a tensor and so below \<open>2\<^sup>6\<^sup>3\<close>.
\<close>

definition generate_relative_positions_matrix :: "nat \<Rightarrow> nat \<Rightarrow> int \<Rightarrow> error + int list list" where
  "generate_relative_positions_matrix d_q d_k max_relative_position =
     (if d_k \<noteq> d_q then Inl AssertionError
      else
        let range_vec_q = arange d_q;
            range_vec_k = range_vec_q;
            distance_mat = map (\<lambda>q. map (\<lambda>k. wrap64 (k - q)) range_vec_k) range_vec_q
        in if \<not> fits_int64 (- max_relative_position) \<or> \<not> fits_int64 max_relative_position
           then Inl RuntimeError
           else
             let distance_mat_clipped =
                   map (map (\<lambda>x. clamp x (- max_relative_position) max_relative_position))
                     distance_mat
             in Inr (map (map (\<lambda>x. wrap64 (x + max_relative_position))) distance_mat_clipped))"

subsection \<open>The random number generator\<close>

text \<open>
  Dropout in training mode and the initialisation of a fresh \<open>nn.Embedding\<close> read
  torch's global generator. The ambient generator is made explicit state: \<open>draws g i\<close> is
  the \<open>i\<close>-th number it hands out and \<open>offset g\<close> counts the numbers consumed so far.
  How the library derives a sample from its internal state is not modelled.
\<close>

record generator =
  draws :: "nat \<Rightarrow> real"
  offset :: nat

definition next_draws :: "generator \<Rightarrow> nat \<Rightarrow> real list \<times> generator" where
  "next_draws g n = (map (\<lambda>i. draws g (offset g + i)) [0..<n], g\<lparr>offset := offset g + n\<rparr>)"

subsection \<open>Tensor operations on nested lists\<close>

definition dot :: "real list \<Rightarrow> real list \<Rightarrow> real" where
  "dot xs ys = sum_list (map2 (*) xs ys)"

text \<open>\<open>torch.matmul\<close> of two matrices: rows of the left against columns of the right.\<close>

definition matmul :: "matrix \<Rightarrow> matrix \<Rightarrow> matrix" where
  "matmul A B = map (\<lambda>row. map (\<lambda>col. dot row col) (transpose B)) A"

text \<open>\<open>torch.matmul\<close> of two 4-D tensors with the same batch dimensions.\<close>

definition matmul4 :: "tensor4 \<Rightarrow> tensor4 \<Rightarrow> tensor4" where
  "matmul4 A B = map2 (map2 matmul) A B"

text \<open>\<open>t.transpose(-2, -1)\<close> of a 4-D tensor.\<close>

definition transpose_last2 :: "'a list list list list \<Rightarrow> 'a list list list list" where
  "transpose_last2 t = map (map transpose) t"

definition tdiv4 :: "tensor4 \<Rightarrow> real \<Rightarrow> tensor4" where
  "tdiv4 t c = map (map (map (map (\<lambda>x. x / c)))) t"

text \<open>Reading a dimension that broadcasts: a dimension of size 1 is read at index 0.\<close>

definition bget :: "'a list \<Rightarrow> nat \<Rightarrow> 'a" where
  "bget xs i = (if length xs = 1 then xs ! 0 else xs ! i)"

text \<open>
  \<open>scores.masked_fill(mask == 0, v)\<close>: the mask is broadcast to the shape of the
  scores, and every score whose mask entry is zero is replaced by \<open>v\<close>.
\<close>

definition masked_fill ::
  "'a list list list list \<Rightarrow> int list list list list \<Rightarrow> 'a \<Rightarrow> 'a list list list list" where
  "masked_fill scores m v =
     map (\<lambda>n. map (\<lambda>a. map (\<lambda>i. map (\<lambda>j.
         if bget (bget (bget (bget m n) a) i) j = 0 then v else scores ! n ! a ! i ! j)
       [0..<length (scores ! n ! a ! i)]) [0..<length (scores ! n ! a)])
       [0..<length (scores ! n)]) [0..<length scores]"

text \<open>\<open>F.softmax(t, dim=-1)\<close>.\<close>

definition softmax_row :: "real list \<Rightarrow> real list" where
  "softmax_row xs = map (\<lambda>x. exp x / sum_list (map exp xs)) xs"

definition softmax :: "tensor4 \<Rightarrow> tensor4" where
  "softmax t = map (map (map softmax_row)) t"

subsection \<open>Dropout\<close>

text \<open>
  \<open>nn.Dropout(p)\<close>, with \<open>prob\<close> for its field \<open>p\<close>. In training mode with
  \<open>p > 0\<close> every element is kept when its draw falls below \<open>1 - p\<close> and is then
  scaled by \<open>1 / (1 - p)\<close>, and is zeroed otherwise; elements are visited in
  row-major order. In inference mode, with \<open>p = 0\<close> or on an empty tensor, the input
  is returned and the generator is not touched.
\<close>

record Dropout =
  prob :: real
  training :: bool

definition numel4 :: "'a list list list list \<Rightarrow> nat" where
  "numel4 t = length (concat (concat (concat t)))"

definition unflatten :: "'a list list list list \<Rightarrow> 'a list \<Rightarrow> 'a list list list list" where
  "unflatten t flat =
     map (\<lambda>n. map (\<lambda>a. map (\<lambda>i. map (\<lambda>j.
         flat ! (length (concat (concat (concat (take n t))))
               + length (concat (concat (take a (t ! n))))
               + length (concat (take i (t ! n ! a))) + j))
       [0..<length (t ! n ! a ! i)]) [0..<length (t ! n ! a)])
       [0..<length (t ! n)]) [0..<length t]"

definition Dropout_forward :: "Dropout \<Rightarrow> generator \<Rightarrow> tensor4 \<Rightarrow> tensor4 \<times> generator" where
  "Dropout_forward d g x =
     (if training d \<and> prob d \<noteq> 0 \<and> numel4 x \<noteq> 0 then
        let (us, g') = next_draws g (numel4 x);
            kept = map2 (\<lambda>u v. if u < 1 - prob d then v / (1 - prob d) else 0)
                     us (concat (concat (concat x)))
        in (unflatten x kept, g')
      else (x, g))"

subsection \<open>Scaled dot-product attention\<close>

text \<open>
  \<open>attention(query, key, value, mask=None, dropout=None)\<close>. \<open>query.size(-1)\<close> is the
  length of a row of the query; the fill value is the literal \<open>-1e9\<close>. A dropout
  module is always truthy, so \<open>if dropout:\<close> tests whether one was supplied.
\<close>

definition size_last :: "'a list list list list \<Rightarrow> nat" where
  "size_last t = length (hd (hd (hd t)))"

definition attention ::
  "tensor4 \<Rightarrow> tensor4 \<Rightarrow> tensor4 \<Rightarrow> int list list list list option \<Rightarrow> Dropout option \<Rightarrow> generator
     \<Rightarrow> (tensor4 \<times> tensor4) \<times> generator" where
  "attention query key value mask_opt dropout g =
     (let d_k = size_last query;
          scores = tdiv4 (matmul4 query (transpose_last2 key)) (sqrt (real d_k));
          scores = (case mask_opt of None \<Rightarrow> scores
                    | Some m \<Rightarrow> masked_fill scores m (- 1000000000));
          p_attn = softmax scores;
          (p_attn, g) = (case dropout of None \<Rightarrow> (p_attn, g)
                         | Some d \<Rightarrow> Dropout_forward d g p_attn)
      in ((matmul4 p_attn value, p_attn), g))"

subsection \<open>Shapes\<close>

text \<open>
  A nested list carries no shape of its own; \<open>shape2 M r c\<close> says that \<open>M\<close> is an
  \<open>r \<times> c\<close> matrix and \<open>shape4 t N h L d\<close> that \<open>t\<close> is a 4-D tensor of shape
  \<open>(N, h, L, d)\<close>. Where the shapes of its arguments do not fit, the tensor library
  raises; the theorems below are stated for arguments whose shapes fit.
\<close>

definition shape2 :: "'a list list \<Rightarrow> nat \<Rightarrow> nat \<Rightarrow> bool" where
  "shape2 M r c \<longleftrightarrow> length M = r \<and> (\<forall>row\<in>set M. length row = c)"

definition shape4 :: "'a list list list list \<Rightarrow> nat \<Rightarrow> nat \<Rightarrow> nat \<Rightarrow> nat \<Rightarrow> bool" where
  "shape4 t N h L d \<longleftrightarrow>
     length t = N \<and> (\<forall>x\<in>set t. length x = h \<and> (\<forall>y\<in>set x. shape2 y L d))"

text \<open>
  A mask fits scores of shape \<open>(N, h, L, S)\<close> when each of its dimensions has that
  size or size 1.
\<close>

definition mask_fits :: "int list list list list option \<Rightarrow> nat \<Rightarrow> nat \<Rightarrow> nat \<Rightarrow> nat \<Rightarrow> bool" where
  "mask_fits mask_opt N h L S =
     (case mask_opt of None \<Rightarrow> True
      | Some m \<Rightarrow> (length m = N \<or> length m = 1) \<and>
          (\<forall>x\<in>set m. (length x = h \<or> length x = 1) \<and>
             (\<forall>y\<in>set x. (length y = L \<or> length y = 1) \<and>
                (\<forall>z\<in>set y. length z = S \<or> length z = 1))))"

text \<open>A dropout module that returns its input: inference mode, or \<open>p = 0\<close>.\<close>

definition dropout_is_identity :: "Dropout option \<Rightarrow> bool" where
  "dropout_is_identity dropout =
     (case dropout of None \<Rightarrow> True | Some d \<Rightarrow> \<not> training d \<or> prob d = 0)"

text \<open>The scores that \<open>attention\<close> hands to the softmax: its first three statements.\<close>

definition attention_scores :: "tensor4 \<Rightarrow> tensor4 \<Rightarrow> int list list list list option \<Rightarrow> tensor4" where
  "attention_scores query key mask_opt =
     (let scores = tdiv4 (matmul4 query (transpose_last2 key)) (sqrt (real (size_last query)))
      in case mask_opt of None \<Rightarrow> scores | Some m \<Rightarrow> masked_fill scores m (- 1000000000))"

subsection \<open>Attention as the specification words it\<close>

text \<open>
  Entry by entry: a score is the scaled dot product of a query row and a key row, or the
  fill value where the (broadcast) mask entry is zero; a weight is the softmax of the
  scores of its row.
\<close>

definition mask_zero :: "int list list list list option \<Rightarrow> nat \<Rightarrow> nat \<Rightarrow> nat \<Rightarrow> nat \<Rightarrow> bool" where
  "mask_zero mask_opt n a i j =
     (case mask_opt of None \<Rightarrow> False
      | Some m \<Rightarrow> bget (bget (bget (bget m n) a) i) j = 0)"

definition scores_spec ::
  "tensor4 \<Rightarrow> tensor4 \<Rightarrow> int list list list list option \<Rightarrow> nat \<Rightarrow> nat \<Rightarrow> nat \<Rightarrow> nat \<Rightarrow> nat \<Rightarrow> real" where
  "scores_spec query key mask_opt d_k n a i j =
     (if mask_zero mask_opt n a i j then - 1000000000
      else (\<Sum>t<d_k. query ! n ! a ! i ! t * key ! n ! a ! j ! t) / sqrt (real d_k))"

definition weights_spec ::
  "tensor4 \<Rightarrow> tensor4 \<Rightarrow> int list list list list option \<Rightarrow> nat \<Rightarrow> nat \<Rightarrow> nat \<Rightarrow> nat \<Rightarrow> nat \<Rightarrow> nat \<Rightarrow> real" where
  "weights_spec query key mask_opt d_k S n a i j =
     exp (scores_spec query key mask_opt d_k n a i j)
       / (\<Sum>j'<S. exp (scores_spec query key mask_opt d_k n a i j'))"

text \<open>
  The clipping of the specification, in its words: \<open>clip(x, lo, hi)\<close> is \<open>x\<close> confined
  to the interval from \<open>lo\<close> to \<open>hi\<close>.
\<close>

definition clip_spec :: "int \<Rightarrow> int \<Rightarrow> int \<Rightarrow> int" where
  "clip_spec x lo hi = (if x < lo then lo else if hi < x then hi else x)"

subsection \<open>Values that need not be finite\<close>

text \<open>
  Layer normalisation divides by a standard deviation that can be \<open>0 / 0\<close>. Its
  tensors hold values of type \<open>fval\<close>: a finite real, an infinity or NaN, with the
  arithmetic of IEEE 754 on the special values and exact arithmetic on the finite ones.
  Rounding, overflow and the sign of zero are not modelled (a zero divisor counts as
  \<open>+0\<close>).
\<close>

datatype fval = Fin real | PInf | NInf | NaN

fun fneg :: "fval \<Rightarrow> fval" where
  "fneg (Fin a) = Fin (- a)"
| "fneg PInf = NInf"
| "fneg NInf = PInf"
| "fneg NaN = NaN"

fun fadd :: "fval \<Rightarrow> fval \<Rightarrow> fval" where
  "fadd NaN y = NaN"
| "fadd x NaN = NaN"
| "fadd (Fin a) (Fin b) = Fin (a + b)"
| "fadd PInf NInf = NaN"
| "fadd NInf PInf = NaN"
| "fadd PInf y = PInf"
| "fadd NInf y = NInf"
| "fadd (Fin a) y = y"

definition fsub :: "fval \<Rightarrow> fval \<Rightarrow> fval" where
  "fsub x y = fadd x (fneg y)"

fun fmul :: "fval \<Rightarrow> fval \<Rightarrow> fval" where
  "fmul NaN y = NaN"
| "fmul x NaN = NaN"
| "fmul (Fin a) (Fin b) = Fin (a * b)"
| "fmul (Fin a) y = (if a = 0 then NaN else if 0 < a then y else fneg y)"
| "fmul x (Fin b) = (if b = 0 then NaN else if 0 < b then x else fneg x)"
| "fmul PInf y = y"
| "fmul NInf y = fneg y"

fun fdiv :: "fval \<Rightarrow> fval \<Rightarrow> fval" where
  "fdiv NaN y = NaN"
| "fdiv x NaN = NaN"
| "fdiv (Fin a) (Fin b) =
     (if b \<noteq> 0 then Fin (a / b) else if a = 0 then NaN else if 0 < a then PInf else NInf)"
| "fdiv (Fin a) y = Fin 0"
| "fdiv x (Fin b) = (if 0 \<le> b then x else fneg x)"
| "fdiv x y = NaN"

fun fsqrt :: "fval \<Rightarrow> fval" where
  "fsqrt (Fin a) = (if a < 0 then NaN else Fin (sqrt a))"
| "fsqrt PInf = PInf"
| "fsqrt NInf = NaN"
| "fsqrt NaN = NaN"

definition fsum :: "fval list \<Rightarrow> fval" where
  "fsum xs = foldl fadd (Fin 0) xs"

subsection \<open>Attention over values that need not be finite\<close>


fun fexp :: "fval \<Rightarrow> fval" where
  "fexp (Fin a) = Fin (exp a)"
| "fexp PInf = PInf"
| "fexp NInf = Fin 0"
| "fexp NaN = NaN"

fun fmax2 :: "fval \<Rightarrow> fval \<Rightarrow> fval" where
  "fmax2 NaN y = NaN"
| "fmax2 x NaN = NaN"
| "fmax2 PInf y = PInf"
| "fmax2 x PInf = PInf"
| "fmax2 NInf y = y"
| "fmax2 x NInf = x"
| "fmax2 (Fin a) (Fin b) = Fin (max a b)"

definition fmax :: "fval list \<Rightarrow> fval" where
  "fmax xs = foldl fmax2 NInf xs"

fun is_Fin :: "fval \<Rightarrow> bool" where
  "is_Fin (Fin a) = True"
| "is_Fin v = False"





text \<open>
  \<open>F.softmax(t, dim=-1)\<close> as the tensor library evaluates it: the maximum of the row
  is subtracted from every entry before \<open>exp\<close>, and the exponentials are divided by
  their sum. A row of \<open>-inf\<close> gives \<open>-inf - (-inf)\<close>, which is NaN.
\<close>

definition fsoftmax_row :: "fval list \<Rightarrow> fval list" where
  "fsoftmax_row xs =
     (let m = fmax xs;
          es = map (\<lambda>x. fexp (fsub x m)) xs;
          s = fsum es
      in map (\<lambda>e. fdiv e s) es)"





subsection \<open>Tensors with a shape, and broadcasting\<close>

text \<open>
  A tensor of any rank: its shape and its elements in row-major order, as in a contiguous
  torch tensor. It is well formed when the number of elements is the product of the shape.
\<close>

record tensor =
  shape :: "nat list"
  data :: "fval list"

definition wf_tensor :: "tensor \<Rightarrow> bool" where
  "wf_tensor t \<longleftrightarrow> length (data t) = prod_list (shape t)"

text \<open>
  The shape of an elementwise operation on two tensors. Shapes are aligned at their last
  dimension; two aligned dimensions fit when they are equal or one of them is 1, and a
  missing dimension counts as 1. \<open>bshape_rev\<close> works on the reversed shapes; \<open>None\<close>
  means that the shapes do not fit, where the library raises a RuntimeError.
\<close>

fun bshape_rev :: "nat list \<Rightarrow> nat list \<Rightarrow> nat list option" where
  "bshape_rev [] ys = Some ys"
| "bshape_rev xs [] = Some xs"
| "bshape_rev (x # xs) (y # ys) =
     (if x = y \<or> y = 1 then map_option ((#) x) (bshape_rev xs ys)
      else if x = 1 then map_option ((#) y) (bshape_rev xs ys)
      else None)"

definition broadcast_shapes :: "nat list \<Rightarrow> nat list \<Rightarrow> nat list option" where
  "broadcast_shapes s t = map_option rev (bshape_rev (rev s) (rev t))"

text \<open>
  \<open>chunks d n xs\<close> cuts \<open>xs\<close> into \<open>d\<close> consecutive pieces of length \<open>n\<close>;
  \<open>expand s t xs\<close> repeats the elements of a tensor of shape \<open>s\<close> along every
  dimension of size 1 until it has the shape \<open>t\<close>; \<open>pad_shape\<close> adds the missing
  leading dimensions.
\<close>

definition chunks :: "nat \<Rightarrow> nat \<Rightarrow> 'a list \<Rightarrow> 'a list list" where
  "chunks d n xs = map (\<lambda>i. take n (drop (i * n) xs)) [0..<d]"

fun expand :: "nat list \<Rightarrow> nat list \<Rightarrow> 'a list \<Rightarrow> 'a list" where
  "expand (d # ds) (e # es) xs =
     (if d = e then concat (map (expand ds es) (chunks d (prod_list ds) xs))
      else concat (replicate e (expand ds es xs)))"
| "expand ds es xs = xs"

definition pad_shape :: "nat list \<Rightarrow> nat list \<Rightarrow> nat list" where
  "pad_shape s t = replicate (length t - length s) 1 @ s"

text \<open>
  An elementwise binary operator of the library (\<open>+\<close>, \<open>-\<close>, \<open>*\<close>, \<open>/\<close>) with
  broadcasting.
\<close>

definition binop :: "(fval \<Rightarrow> fval \<Rightarrow> fval) \<Rightarrow> tensor \<Rightarrow> tensor \<Rightarrow> error + tensor" where
  "binop f a b =
     (case broadcast_shapes (shape a) (shape b) of
        None \<Rightarrow> Inl RuntimeError
      | Some s \<Rightarrow> Inr \<lparr>shape = s,
          data = map2 f (expand (pad_shape (shape a) s) s (data a))
                        (expand (pad_shape (shape b) s) s (data b))\<rparr>)"

text \<open>
  Sequencing of steps that may raise: the first error is the result.
\<close>

definition and_then :: "error + 'a \<Rightarrow> ('a \<Rightarrow> error + 'b) \<Rightarrow> error + 'b" where
  "and_then r f = (case r of Inl e \<Rightarrow> Inl e | Inr v \<Rightarrow> f v)"

subsection \<open>LayerNorm\<close>

text \<open>
  \<open>x.mean(-1, keepdim=True)\<close> and \<open>x.std(-1, keepdim=True)\<close> reduce the last
  dimension and keep it with size 1. \<open>torch.std\<close> is the unbiased estimator by
  default: the sum of squared deviations is divided by \<open>max(0, F - 1)\<close>, which the
  subtraction on \<open>nat\<close> computes, before the square root. For a tensor of rank 0 the
  library reduces its single element.
\<close>

definition last_dim :: "nat list \<Rightarrow> nat" where
  "last_dim s = (if s = [] then 1 else last s)"

definition keepdim_shape :: "nat list \<Rightarrow> nat list" where
  "keepdim_shape s = (if s = [] then [] else butlast s @ [1])"

definition rows :: "tensor \<Rightarrow> fval list list" where
  "rows t = chunks (prod_list (butlast (shape t))) (last_dim (shape t)) (data t)"

definition mean_row :: "fval list \<Rightarrow> fval" where
  "mean_row xs = fdiv (fsum xs) (Fin (real (length xs)))"

definition std_row :: "fval list \<Rightarrow> fval" where
  "std_row xs =
     (let m = mean_row xs
      in fsqrt (fdiv (fsum (map (\<lambda>x. fmul (fsub x m) (fsub x m)) xs))
                     (Fin (real (length xs - 1)))))"

definition tmean :: "tensor \<Rightarrow> tensor" where
  "tmean t = \<lparr>shape = keepdim_shape (shape t), data = map mean_row (rows t)\<rparr>"

definition tstd :: "tensor \<Rightarrow> tensor" where
  "tstd t = \<lparr>shape = keepdim_shape (shape t), data = map std_row (rows t)\<rparr>"

definition tadd_scalar :: "tensor \<Rightarrow> real \<Rightarrow> tensor" where
  "tadd_scalar t c = t\<lparr>data := map (\<lambda>v. fadd v (Fin c)) (data t)\<rparr>"

text \<open>
  The module and its constructor: \<open>weight\<close> and \<open>bias\<close> are tensors of shape
  \<open>(features)\<close>, here \<open>ln_weight\<close> and \<open>ln_bias\<close>.
\<close>

record LayerNorm =
  ln_weight :: tensor
  ln_bias :: tensor
  eps :: real

definition LayerNorm_init :: "nat \<Rightarrow> real \<Rightarrow> LayerNorm" where
  "LayerNorm_init features e =
     \<lparr>ln_weight = \<lparr>shape = [features], data = replicate features (Fin 1)\<rparr>,
      ln_bias = \<lparr>shape = [features], data = replicate features (Fin 0)\<rparr>,
      eps = e\<rparr>"

text \<open>
  \<open>LayerNorm.forward\<close>: \<open>self.weight * (x - mean) / (std + self.eps) + self.bias\<close>,
  evaluated from the left.
\<close>

definition LayerNorm_forward :: "LayerNorm \<Rightarrow> tensor \<Rightarrow> error + tensor" where
  "LayerNorm_forward layer x =
     (let mean = tmean x;
          std = tstd x
      in and_then (binop fsub x mean) (\<lambda>centred.
         and_then (binop fmul (ln_weight layer) centred) (\<lambda>scaled.
         and_then (binop fdiv scaled (tadd_scalar std (eps layer))) (\<lambda>normed.
         binop fadd normed (ln_bias layer)))))"

text \<open>
  The two standard deviations of a list of reals in closed form, for comparison: the
  sample one with Bessel's correction and the population one.
\<close>

definition mean_spec :: "real list \<Rightarrow> real" where
  "mean_spec xs = sum_list xs / real (length xs)"

definition sample_std :: "real list \<Rightarrow> real" where
  "sample_std xs =
     (let m = sum_list xs / real (length xs)
      in sqrt ((\<Sum>x\<leftarrow>xs. (x - m)\<^sup>2) / (real (length xs) - 1)))"

definition population_std :: "real list \<Rightarrow> real" where
  "population_std xs = sqrt ((\<Sum>x\<leftarrow>xs. (x - mean_spec xs)\<^sup>2) / real (length xs))"

subsection \<open>SublayerConnection\<close>

text \<open>
  \<open>nn.Dropout\<close> on a tensor with a shape: an element is multiplied by
  \<open>1 / (1 - p)\<close> when it is kept and by 0 otherwise.
\<close>

definition Dropout_tensor :: "Dropout \<Rightarrow> generator \<Rightarrow> tensor \<Rightarrow> tensor \<times> generator" where
  "Dropout_tensor d g x =
     (if training d \<and> prob d \<noteq> 0 \<and> data x \<noteq> [] then
        let (us, g') = next_draws g (length (data x))
        in (x\<lparr>data := map2 (\<lambda>u v. fmul v (Fin (if u < 1 - prob d then 1 / (1 - prob d) else 0)))
                         us (data x)\<rparr>, g')
      else (x, g))"

text \<open>
  The module: \<open>self.norm\<close> and \<open>self.dropout\<close> are the fields \<open>sc_norm\<close> and
  \<open>sc_dropout\<close>. A new module is in training mode; \<open>LayerNorm(size)\<close> takes the
  default \<open>eps = 1e-6\<close>.
\<close>

record SublayerConnection =
  sc_norm :: LayerNorm
  sc_dropout :: Dropout

definition SublayerConnection_init :: "nat \<Rightarrow> real \<Rightarrow> SublayerConnection" where
  "SublayerConnection_init features dropout =
     \<lparr>sc_norm = LayerNorm_init features (1 / 1000000),
      sc_dropout = \<lparr>prob = dropout, training = True\<rparr>\<rparr>"

text \<open>
  \<open>SublayerConnection.forward\<close>: \<open>x + self.dropout(sublayer(self.norm(x)))\<close>. The
  sublayer is any function of a tensor; it may read the generator and it may raise. The
  addition is the library's \<open>+\<close>, which broadcasts.
\<close>

definition SublayerConnection_forward ::
  "SublayerConnection \<Rightarrow> generator \<Rightarrow> tensor \<Rightarrow> (tensor \<Rightarrow> generator \<Rightarrow> error + tensor \<times> generator)
     \<Rightarrow> error + tensor \<times> generator" where
  "SublayerConnection_forward self g x sublayer =
     and_then (LayerNorm_forward (sc_norm self) x) (\<lambda>normed.
     and_then (sublayer normed g) (\<lambda>(y, g).
       let (dropped, g) = Dropout_tensor (sc_dropout self) g y
       in and_then (binop fadd x dropped) (\<lambda>r. Inr (r, g))))"

subsection \<open>PositionalEncoding\<close>

text \<open>
  \<open>torch.exp(torch.arange(0., d_model, 2) * -(math.log(1e4) / d_model))\<close>: one entry
  for each even number below \<open>d_model\<close>.
\<close>

definition div_term :: "nat \<Rightarrow> real list" where
  "div_term d_model =
     map (\<lambda>i. exp (real (2 * i) * - (ln 10000 / real d_model))) [0..<(d_model + 1) div 2]"

text \<open>
  \<open>position * div_term\<close>, a column times a row: the matrix of all products.
\<close>

definition outer :: "real list \<Rightarrow> real list \<Rightarrow> matrix" where
  "outer ps ds = map (\<lambda>p. map (\<lambda>d. p * d) ds) ps"

text \<open>
  The assignment \<open>pe[:, start::2] = src\<close> to a table with \<open>d_model\<close> columns, by
  a source with \<open>w\<close> columns. The slice has \<open>(d_model + 1 - start) div 2\<close> columns;
  the source must have as many, or one column that is then repeated; otherwise the
  library raises a RuntimeError.
\<close>

definition assign_strided :: "nat \<Rightarrow> nat \<Rightarrow> matrix \<Rightarrow> nat \<Rightarrow> matrix \<Rightarrow> error + matrix" where
  "assign_strided start d_model pe w src =
     (let n = (d_model + 1 - start) div 2
      in if w = n \<or> w = 1 then
           Inr (map2 (\<lambda>row srow.
                  map (\<lambda>c. if start \<le> c \<and> even (c - start)
                            then bget srow ((c - start) div 2) else row ! c) [0..<d_model])
                  pe src)
         else Inl RuntimeError)"

text \<open>
  The table that the constructor of \<open>PositionalEncoding\<close> computes, before
  \<open>unsqueeze(0)\<close>. The division \<open>math.log(1e4) / d_model\<close> raises for
  \<open>d_model = 0\<close>.
\<close>

definition pe_table :: "nat \<Rightarrow> nat \<Rightarrow> error + matrix" where
  "pe_table d_model max_len =
     (if d_model = 0 then Inl ZeroDivisionError
      else
        let pe = replicate max_len (replicate d_model 0);
            position = map real [0..<max_len];
            dt = div_term d_model;
            angles = outer position dt
        in and_then (assign_strided 0 d_model pe (length dt) (map (map sin) angles)) (\<lambda>pe.
           assign_strided 1 d_model pe (length dt) (map (map cos) angles)))"

text \<open>
  The module: the buffer \<open>pe\<close> has the shape \<open>(1, max_len, d_model)\<close>; a new
  module is in training mode.
\<close>

record PositionalEncoding =
  pe_dropout :: Dropout
  pe :: tensor

definition PositionalEncoding_init :: "nat \<Rightarrow> real \<Rightarrow> nat \<Rightarrow> error + PositionalEncoding" where
  "PositionalEncoding_init d_model dropout max_len =
     and_then (pe_table d_model max_len) (\<lambda>t.
       Inr \<lparr>pe_dropout = \<lparr>prob = dropout, training = True\<rparr>,
            pe = \<lparr>shape = [1, max_len, d_model], data = map Fin (concat t)\<rparr>\<rparr>)"

text \<open>
  \<open>PositionalEncoding.forward\<close>: \<open>x + self.pe[:, :x.size(1)]\<close>, then dropout.
  \<open>x.size(1)\<close> raises an IndexError for a tensor of rank below 2; the slice keeps at
  most \<open>max_len\<close> positions.
\<close>

definition PositionalEncoding_forward ::
  "PositionalEncoding \<Rightarrow> generator \<Rightarrow> tensor \<Rightarrow> error + tensor \<times> generator" where
  "PositionalEncoding_forward self g x =
     (if length (shape x) < 2 then Inl IndexError
      else
        let len = min (shape x ! 1) (shape (pe self) ! 1);
            d_model = shape (pe self) ! 2;
            sliced = \<lparr>shape = [1, len, d_model], data = take (len * d_model) (data (pe self))\<rparr>
        in and_then (binop fadd x sliced) (\<lambda>y. Inr (Dropout_tensor (pe_dropout self) g y)))"

text \<open>
  The table in closed form, entry by entry.
\<close>

definition pe_closed :: "nat \<Rightarrow> nat \<Rightarrow> matrix" where
  "pe_closed D M =
     map (\<lambda>pos. map (\<lambda>c. if even c then sin (real pos * div_term D ! (c div 2))
                         else cos (real pos * div_term D ! ((c - 1) div 2))) [0..<D]) [0..<M]"

subsection \<open>Linear layers and module cloning\<close>

text \<open>
  \<open>nn.Linear\<close>: a weight matrix with one row for each output feature, and a bias.
  The constructor takes its initial parameters from the generator.
\<close>

record Linear =
  weight :: matrix
  bias :: "real list"

definition Linear_init :: "nat \<Rightarrow> nat \<Rightarrow> generator \<Rightarrow> Linear \<times> generator" where
  "Linear_init in_features out_features g =
     (let (ws, g) = next_draws g (out_features * in_features);
          (bs, g) = next_draws g out_features
      in (\<lparr>weight = chunks out_features in_features ws, bias = bs\<rparr>, g))"

text \<open>
  \<open>F.linear\<close> on a 3-D tensor: \<open>x W\<^sup>T + b\<close> on every row.
\<close>

definition Linear_forward :: "Linear \<Rightarrow> tensor3 \<Rightarrow> tensor3" where
  "Linear_forward l x =
     map (map (\<lambda>row. map2 (+) (map (\<lambda>w. dot row w) (weight l)) (bias l))) x"

text \<open>
  Modelled from the spec: \<open>utils.clones\<close> is not among the sources. It replicates a
  module \<open>n\<close> times; every copy owns its parameters, which start out equal.
\<close>

definition clones :: "'a \<Rightarrow> nat \<Rightarrow> 'a list" where
  "clones proto n = replicate n proto"

subsection \<open>Splitting and merging heads\<close>

text \<open>
  \<open>t.view(nbatches, -1, h, d_k)\<close> of a contiguous 3-D tensor regroups its elements,
  in row-major order, into vectors of length \<open>d_k\<close>, \<open>h\<close> vectors for a position,
  and the positions into \<open>nbatches\<close> equal parts; \<open>view(nbatches, -1, width)\<close> of
  a contiguous 4-D tensor likewise. \<open>transpose(1, 2)\<close> swaps the second and third
  axis; \<open>mask.unsqueeze(1)\<close> inserts an axis of size 1.
\<close>

definition view4 :: "nat \<Rightarrow> nat \<Rightarrow> nat \<Rightarrow> tensor3 \<Rightarrow> tensor4" where
  "view4 nbatches h d_k t =
     (let flat = concat (concat t);
          vecs = chunks (length flat div d_k) d_k flat;
          poss = chunks (length vecs div h) h vecs
      in chunks nbatches (length poss div nbatches) poss)"

definition view3 :: "nat \<Rightarrow> nat \<Rightarrow> tensor4 \<Rightarrow> tensor3" where
  "view3 nbatches width t =
     (let flat = concat (concat (concat t));
          vecs = chunks (length flat div width) width flat
      in chunks nbatches (length vecs div nbatches) vecs)"

definition transpose12 :: "tensor4 \<Rightarrow> tensor4" where
  "transpose12 t = map transpose t"

definition unsqueeze1 :: "'a list \<Rightarrow> 'a list list" where
  "unsqueeze1 t = map (\<lambda>m. [m]) t"

text \<open>
  One element of the list comprehension of \<open>forward\<close>:
  \<open>l(x).view(nbatches, -1, self.h, self.d_k).transpose(1, 2)\<close>.
\<close>

definition project :: "Linear \<Rightarrow> nat \<Rightarrow> nat \<Rightarrow> nat \<Rightarrow> tensor3 \<Rightarrow> tensor4" where
  "project l nbatches h d_k x = transpose12 (view4 nbatches h d_k (Linear_forward l x))"

subsection \<open>MultiHeadedAttention\<close>

text \<open>
  The module. \<open>d_model % h\<close> raises for \<open>h = 0\<close>, and the assertion fails when
  \<open>h\<close> does not divide \<open>d_model\<close>. \<open>forward\<close> stores the attention weights in
  \<open>self.attn\<close>, so it returns the module as well.
\<close>

record MultiHeadedAttention =
  mha_d_k :: nat
  mha_h :: nat
  mha_linears :: "Linear list"
  mha_attn :: "tensor4 option"
  mha_dropout :: Dropout

definition MultiHeadedAttention_init ::
  "nat \<Rightarrow> nat \<Rightarrow> real \<Rightarrow> generator \<Rightarrow> error + MultiHeadedAttention \<times> generator" where
  "MultiHeadedAttention_init h d_model dropout g =
     (if h = 0 then Inl ZeroDivisionError
      else if d_model mod h \<noteq> 0 then Inl AssertionError
      else
        let (l, g) = Linear_init d_model d_model g
        in Inr (\<lparr>mha_d_k = d_model div h, mha_h = h, mha_linears = clones l 4,
                 mha_attn = None, mha_dropout = \<lparr>prob = dropout, training = True\<rparr>\<rparr>, g))"

definition MultiHeadedAttention_forward ::
  "MultiHeadedAttention \<Rightarrow> generator \<Rightarrow> tensor3 \<Rightarrow> tensor3 \<Rightarrow> tensor3 \<Rightarrow> int list list list option
     \<Rightarrow> tensor3 \<times> MultiHeadedAttention \<times> generator" where
  "MultiHeadedAttention_forward self g query key value mask_opt =
     (let mask_opt = map_option unsqueeze1 mask_opt;
          nbatches = length query;
          query = project (mha_linears self ! 0) nbatches (mha_h self) (mha_d_k self) query;
          key = project (mha_linears self ! 1) nbatches (mha_h self) (mha_d_k self) key;
          value = project (mha_linears self ! 2) nbatches (mha_h self) (mha_d_k self) value;
          ((x, attn), g) = attention query key value mask_opt (Some (mha_dropout self)) g;
          self = self\<lparr>mha_attn := Some attn\<rparr>;
          x = view3 nbatches (mha_h self * mha_d_k self) (transpose12 x)
      in (Linear_forward (last (mha_linears self)) x, self, g))"

subsection \<open>MultiHeadedAttention_RPR\<close>

text \<open>
  The module and its constructor, which stores \<open>max_relative_position\<close> and creates
  no embedding table.
\<close>

record MultiHeadedAttention_RPR =
  rpr_d_k :: nat
  rpr_h :: nat
  rpr_linears :: "Linear list"
  rpr_dropout :: Dropout
  rpr_max_relative_position :: int

definition MultiHeadedAttention_RPR_init ::
  "nat \<Rightarrow> nat \<Rightarrow> int \<Rightarrow> real \<Rightarrow> generator \<Rightarrow> error + MultiHeadedAttention_RPR \<times> generator" where
  "MultiHeadedAttention_RPR_init h d_model max_relative_position dropout g =
     (if h = 0 then Inl ZeroDivisionError
      else if d_model mod h \<noteq> 0 then Inl AssertionError
      else
        let (l, g) = Linear_init d_model d_model g
        in Inr (\<lparr>rpr_d_k = d_model div h, rpr_h = h, rpr_linears = clones l 4,
                 rpr_dropout = \<lparr>prob = dropout, training = True\<rparr>,
                 rpr_max_relative_position = max_relative_position\<rparr>, g))"

text \<open>
  \<open>nn.Embedding(num_embeddings, embedding_dim)\<close>: the constructor draws the table
  from the generator; a negative size raises. A lookup raises an IndexError for an index
  outside the table.
\<close>

record Embedding =
  emb_weight :: matrix

definition Embedding_init :: "int \<Rightarrow> nat \<Rightarrow> generator \<Rightarrow> error + Embedding \<times> generator" where
  "Embedding_init num_embeddings embedding_dim g =
     (if num_embeddings < 0 then Inl RuntimeError
      else
        let (ws, g) = next_draws g (nat num_embeddings * embedding_dim)
        in Inr (\<lparr>emb_weight = chunks (nat num_embeddings) embedding_dim ws\<rparr>, g))"

definition Embedding_forward :: "Embedding \<Rightarrow> int list list \<Rightarrow> error + tensor3" where
  "Embedding_forward e idx =
     (if \<forall>row\<in>set idx. \<forall>i\<in>set row. 0 \<le> i \<and> nat i < length (emb_weight e)
      then Inr (map (map (\<lambda>i. emb_weight e ! nat i)) idx)
      else Inl IndexError)"

text \<open>
  \<open>generate_relative_positions_embeddings\<close>: it builds the position matrix, then a
  new embedding table, and looks the matrix up in it.
\<close>

definition generate_relative_positions_embeddings ::
  "nat \<Rightarrow> nat \<Rightarrow> nat \<Rightarrow> int \<Rightarrow> generator \<Rightarrow> error + tensor3 \<times> generator" where
  "generate_relative_positions_embeddings len_q len_k depth max_relative_position g =
     and_then (generate_relative_positions_matrix len_q len_k max_relative_position)
       (\<lambda>relative_position_matrix.
     let vocab_size = max_relative_position * 2 + 1
     in and_then (Embedding_init vocab_size depth g) (\<lambda>(embeddings_table, g).
        and_then (Embedding_forward embeddings_table relative_position_matrix) (\<lambda>embeddings.
        Inr (embeddings, g))))"

text \<open>
  The operations of \<open>_relative_attn_inner\<close> with the shape errors of the library.
  \<open>shape_of4\<close> reads the shape of a 4-D tensor that has no empty dimension.
  \<open>torch.matmul\<close> broadcasts the leading (batch) dimensions and raises a RuntimeError
  when they do not broadcast or when the inner dimensions differ; \<open>+\<close> broadcasts all
  dimensions and raises when they do not broadcast.
\<close>

definition shape_of4 :: "'a list list list list \<Rightarrow> nat list" where
  "shape_of4 t = [length t, length (hd t), length (hd (hd t)), length (hd (hd (hd t)))]"

definition batched_matmul4 :: "tensor4 \<Rightarrow> tensor4 \<Rightarrow> error + tensor4" where
  "batched_matmul4 A B =
     (case broadcast_shapes [length A, length (hd A)] [length B, length (hd B)] of
        None \<Rightarrow> Inl RuntimeError
      | Some s \<Rightarrow>
          if size_last A \<noteq> length (hd (hd B)) then Inl RuntimeError
          else Inr (map (\<lambda>n. map (\<lambda>a. matmul (bget (bget A n) a) (bget (bget B n) a))
                            [0..<s ! 1]) [0..<s ! 0]))"

definition batched_matmul3 :: "tensor3 \<Rightarrow> tensor3 \<Rightarrow> error + tensor3" where
  "batched_matmul3 A B =
     (case broadcast_shapes [length A] [length B] of
        None \<Rightarrow> Inl RuntimeError
      | Some s \<Rightarrow>
          if length (hd (hd A)) \<noteq> length (hd B) then Inl RuntimeError
          else Inr (map (\<lambda>i. matmul (bget A i) (bget B i)) [0..<s ! 0]))"

definition tadd4 :: "tensor4 \<Rightarrow> tensor4 \<Rightarrow> error + tensor4" where
  "tadd4 A B =
     (case broadcast_shapes (shape_of4 A) (shape_of4 B) of
        None \<Rightarrow> Inl RuntimeError
      | Some s \<Rightarrow>
          Inr (map (\<lambda>n. map (\<lambda>a. map (\<lambda>i. map (\<lambda>j.
                 bget (bget (bget (bget A n) a) i) j + bget (bget (bget (bget B n) a) i) j)
               [0..<s ! 3]) [0..<s ! 2]) [0..<s ! 1]) [0..<s ! 0]))"

text \<open>
  \<open>t.view(seq_len, nbatches, heads, -1).permute(1, 2, 0, 3)\<close> of a contiguous 3-D
  tensor: its elements are regrouped, in row-major order, into
  \<open>seq_len * nbatches * heads\<close> vectors of equal length, which the library refuses when
  the number of elements is not a multiple; the vector of position \<open>i\<close>, batch element
  \<open>n\<close> and head \<open>a\<close> then goes to \<open>(n, a, i)\<close>.
\<close>

definition view_permute :: "nat \<Rightarrow> nat \<Rightarrow> nat \<Rightarrow> tensor3 \<Rightarrow> error + tensor4" where
  "view_permute seq_len nbatches heads t =
     (let flat = concat (concat t);
          m = seq_len * nbatches * heads
      in if m = 0 \<or> length flat mod m \<noteq> 0 then Inl RuntimeError
         else
           let vecs = chunks m (length flat div m) flat
           in Inr (map (\<lambda>n. map (\<lambda>a. map (\<lambda>i. vecs ! ((i * nbatches + n) * heads + a))
                            [0..<seq_len]) [0..<heads]) [0..<nbatches]))"

text \<open>
  \<open>_relative_attn_inner(x, y, z, transpose)\<close>. \<open>x.permute(2, 0, 1, 3)\<close> viewed as
  \<open>(seq_len, nbatches * heads, -1)\<close> lists, for each position, the vectors of all
  batch elements and heads; the product with \<open>z\<close> is viewed as
  \<open>(seq_len, nbatches, heads, -1)\<close> and permuted back.
\<close>

definition relative_attn_inner :: "tensor4 \<Rightarrow> tensor4 \<Rightarrow> tensor3 \<Rightarrow> bool \<Rightarrow> error + tensor4" where
  "relative_attn_inner x y z transpose_flag =
     (let nbatches = length x;
          heads = length (hd x);
          seq_len = length (hd (hd x))
      in and_then (batched_matmul4 x (if transpose_flag then transpose_last2 y else y))
           (\<lambda>xy_matmul.
         let x_t_v = map (\<lambda>i. concat (map (\<lambda>xn. map (\<lambda>xh. xh ! i) xn) x)) [0..<seq_len]
         in and_then (batched_matmul3 x_t_v (if transpose_flag then map transpose z else z))
              (\<lambda>x_tz_matmul.
            and_then (view_permute seq_len nbatches heads x_tz_matmul) (\<lambda>x_tz_matmul_v_t.
            tadd4 xy_matmul x_tz_matmul_v_t))))"

text \<open>
  \<open>MultiHeadedAttention_RPR.forward\<close>. The mask is unsqueezed and then never used;
  the logits are not divided by \<open>sqrt d_k\<close>.
\<close>

definition MultiHeadedAttention_RPR_forward ::
  "MultiHeadedAttention_RPR \<Rightarrow> generator \<Rightarrow> tensor3 \<Rightarrow> tensor3 \<Rightarrow> tensor3 \<Rightarrow> int list list list option
     \<Rightarrow> error + tensor3 \<times> generator" where
  "MultiHeadedAttention_RPR_forward self g query key value mask_opt =
     (let mask_opt = map_option unsqueeze1 mask_opt;
          nbatches = length query;
          seq_len = length (hd query);
          query = project (rpr_linears self ! 0) nbatches (rpr_h self) (rpr_d_k self) query;
          key = project (rpr_linears self ! 1) nbatches (rpr_h self) (rpr_d_k self) key;
          value = project (rpr_linears self ! 2) nbatches (rpr_h self) (rpr_d_k self) value
      in and_then (generate_relative_positions_embeddings seq_len seq_len (rpr_d_k self)
                     (rpr_max_relative_position self) g) (\<lambda>(relation_keys, g).
         and_then (generate_relative_positions_embeddings seq_len seq_len (rpr_d_k self)
                     (rpr_max_relative_position self) g) (\<lambda>(relation_values, g).
         and_then (relative_attn_inner query key relation_keys True) (\<lambda>logits.
         let (weights, g) = Dropout_forward (rpr_dropout self) g (softmax logits)
         in and_then (relative_attn_inner weights value relation_values False) (\<lambda>x.
            let x = view3 nbatches (rpr_h self * rpr_d_k self) (transpose12 x)
            in Inr (Linear_forward (last (rpr_linears self)) x, g))))))"

subsection \<open>Example inputs\<close>

text \<open>
  A generator that hands out the same number forever, and a sublayer that returns a
  fixed tensor.
\<close>

definition const_generator :: "real \<Rightarrow> generator" where
  "const_generator c = \<lparr>draws = (\<lambda>i. c), offset = 0\<rparr>"

definition const_sublayer :: "tensor \<Rightarrow> tensor \<Rightarrow> generator \<Rightarrow> error + tensor \<times> generator" where
  "const_sublayer y x g = Inr (y, g)"

text \<open>
  A linear layer that returns its input, a generator that hands out \<open>0, 1, 2, ...\<close>,
  and modules in inference mode with dropout probability 0: one head of width 1, and a
  standard and a relative-position module with one head of width 4 and the same four
  linear layers.
\<close>

definition identity_linear :: "nat \<Rightarrow> Linear" where
  "identity_linear n =
     \<lparr>weight = map (\<lambda>i. map (\<lambda>j. if i = j then 1 else 0) [0..<n]) [0..<n],
      bias = replicate n 0\<rparr>"

definition counting_generator :: generator where
  "counting_generator = \<lparr>draws = real, offset = 0\<rparr>"

definition rpr1 :: MultiHeadedAttention_RPR where
  "rpr1 = \<lparr>rpr_d_k = 1, rpr_h = 1, rpr_linears = replicate 4 (identity_linear 1),
           rpr_dropout = \<lparr>prob = 0, training = False\<rparr>, rpr_max_relative_position = 0\<rparr>"

definition mha4 :: MultiHeadedAttention where
  "mha4 = \<lparr>mha_d_k = 4, mha_h = 1, mha_linears = replicate 4 (identity_linear 4),
           mha_attn = None, mha_dropout = \<lparr>prob = 0, training = False\<rparr>\<rparr>"

definition rpr4 :: MultiHeadedAttention_RPR where
  "rpr4 = \<lparr>rpr_d_k = 4, rpr_h = 1, rpr_linears = replicate 4 (identity_linear 4),
           rpr_dropout = \<lparr>prob = 0, training = False\<rparr>, rpr_max_relative_position = 1\<rparr>"

definition x4 :: tensor3 where
  "x4 = [[[0, 0, 0, 0], [2, 0, 0, 0]]]"

section \<open>Theorems\<close>

lemma clamp_clip_spec: "lo \<le> hi \<Longrightarrow> clamp x lo hi = clip_spec x lo hi"
  by (simp add: clamp_def clip_spec_def)

lemma wrap64_id: "fits_int64 x \<Longrightarrow> wrap64 x = x"
  by (simp add: fits_int64_def wrap64_def)

text \<open>
  C8, amended. For every sequence length \<open>L\<close> and every max_relative_position \<open>k\<close>
  with \<open>0 \<le> k\<close> such that \<open>k\<close> and the largest entry \<open>min(L - 1, k) + k\<close> fit
  into 64 bits (in particular whenever \<open>2k < 2\<^sup>6\<^sup>3\<close>),
  \<open>_generate_relative_positions_matrix(L, L, k)\<close> returns the \<open>L \<times> L\<close> integer
  matrix whose entry \<open>(i, j)\<close> is \<open>clip(j - i, -k, k) + k\<close>, and every entry lies
  between \<open>0\<close> and \<open>2k\<close>.
\<close>

theorem relative_positions_matrix_entries:
  assumes "0 \<le> k" and "k < 2 ^ 63" and "L < 2 ^ 63" and "min (int L - 1) k + k < 2 ^ 63"
  shows "\<exists>M. generate_relative_positions_matrix L L k = Inr M \<and> length M = L \<and>
           (\<forall>i<L. length (M ! i) = L \<and>
              (\<forall>j<L. M ! i ! j = clip_spec (int j - int i) (- k) k + k \<and>
                      0 \<le> M ! i ! j \<and> M ! i ! j \<le> 2 * k))"
proof -
  have lohi: "- k \<le> k" using assms(1) by simp
  have fk: "fits_int64 k" "fits_int64 (- k)"
    using assms(1,2) by (simp_all add: fits_int64_def)
  have L: "int L < 2 ^ 63" using assms(3) by (simp flip: of_nat_less_iff)
  have d: "wrap64 (int j - int i) = int j - int i" if "i < L" "j < L" for i j
    using that L by (intro wrap64_id) (simp add: fits_int64_def)
  have e: "wrap64 (clip_spec (int j - int i) (- k) k + k) = clip_spec (int j - int i) (- k) k + k"
    if "i < L" "j < L" for i j
    using that assms(1,4) by (intro wrap64_id) (auto simp: fits_int64_def clip_spec_def)
  show ?thesis
    using assms(1) fk
    by (simp add: generate_relative_positions_matrix_def arange_def Let_def d
          clamp_clip_spec [OF lohi] e) (simp add: clip_spec_def)
qed

theorem relative_positions_matrix_entries_witness:
  "(0::int) \<le> 1 \<and> (1::int) < 2 ^ 63 \<and> (3::nat) < 2 ^ 63 \<and> min (int 3 - 1) 1 + 1 < 2 ^ 63 \<and>
   (\<exists>M. generate_relative_positions_matrix 3 3 1 = Inr M \<and> length M = 3 \<and>
      (\<forall>i<3. length (M ! i) = 3 \<and>
         (\<forall>j<3. M ! i ! j = clip_spec (int j - int i) (- 1) 1 + 1 \<and>
                 0 \<le> M ! i ! j \<and> M ! i ! j \<le> 2 * 1)))"
  using relative_positions_matrix_entries [of 1 3] by simp

text \<open>
  C8 as stated, for every \<open>k\<close>, fails at both ends. For \<open>k = -1\<close> the lower bound of
  \<open>torch.clamp\<close> exceeds the upper one, every distance becomes \<open>-1\<close> and every
  entry \<open>-2\<close>. For \<open>k = 2\<^sup>6\<^sup>3 - 1\<close> the addition on 64-bit integers wraps:
  the entry \<open>(0, 1)\<close> is \<open>-2\<^sup>6\<^sup>3\<close>. Neither lies between \<open>0\<close> and \<open>2k\<close>.
\<close>

theorem relative_positions_matrix_counterexample:
  "generate_relative_positions_matrix 1 1 (- 1) = Inr [[- 2]] \<and>
   generate_relative_positions_matrix 2 2 9223372036854775807
     = Inr [[9223372036854775807, - 9223372036854775808],
            [9223372036854775806, 9223372036854775807]] \<and>
   \<not> (0 \<le> (- 2 :: int)) \<and> \<not> (0 \<le> (- 9223372036854775808 :: int))"
  by (simp add: generate_relative_positions_matrix_def arange_def Let_def clamp_def
      fits_int64_def wrap64_def upt_conv_Cons numeral_2_eq_2)

subsection \<open>Attention\<close>

lemma dot_sum: "length xs = length ys \<Longrightarrow> dot xs ys = (\<Sum>t<length xs. xs ! t * ys ! t)"
  by (simp add: dot_def sum_list_sum_nth atLeast0LessThan)

lemma transpose_shape2:
  assumes "shape2 B m p" "0 < m"
  shows "transpose B = map (\<lambda>j. map (\<lambda>t. B ! t ! j) [0..<m]) [0..<p]"
proof -
  have "transpose B = map (\<lambda>i. map (\<lambda>j. B ! j ! i) [0..<length B]) [0..<p]"
    using assms by (intro transpose_rectangle) (auto simp: shape2_def)
  then show ?thesis using assms by (simp add: shape2_def)
qed

lemma shape2_transpose:
  assumes "shape2 B m p" "0 < m"
  shows "shape2 (transpose B) p m"
  by (simp add: transpose_shape2 [OF assms] shape2_def)

lemma matmul_shape:
  assumes "shape2 B m p" "0 < m"
  shows "shape2 (matmul A B) (length A) p"
  by (simp add: matmul_def transpose_shape2 [OF assms] shape2_def)

lemma matmul_nth:
  assumes "shape2 B m p" "0 < m" "i < length A" "length (A ! i) = m" "j < p"
  shows "matmul A B ! i ! j = (\<Sum>t<m. A ! i ! t * B ! t ! j)"
  using assms(3-) by (simp add: matmul_def transpose_shape2 [OF assms(1,2)] dot_sum)

lemma matmul_transpose_nth:
  assumes "shape2 K S d" "0 < S" "0 < d" "i < length A" "length (A ! i) = d" "j < S"
  shows "matmul A (transpose K) ! i ! j = (\<Sum>t<d. A ! i ! t * K ! j ! t)"
proof -
  have "matmul A (transpose K) ! i ! j = (\<Sum>t<d. A ! i ! t * transpose K ! t ! j)"
    using assms by (intro matmul_nth [where p = S]) (simp_all add: shape2_transpose)
  also have "\<dots> = (\<Sum>t<d. A ! i ! t * K ! j ! t)"
    using assms by (simp add: transpose_shape2 [OF assms(1,2)])
  finally show ?thesis .
qed

lemma shape2_nth: "shape2 M r c \<Longrightarrow> i < r \<Longrightarrow> length (M ! i) = c"
  by (simp add: shape2_def)

lemma shape2_I: "length M = r \<Longrightarrow> (\<And>i. i < r \<Longrightarrow> length (M ! i) = c) \<Longrightarrow> shape2 M r c"
  by (auto simp: shape2_def in_set_conv_nth)

lemma shape4_nth:
  assumes "shape4 t N h L d" "n < N"
  shows "length (t ! n) = h" and "a < h \<Longrightarrow> shape2 (t ! n ! a) L d"
proof -
  have mem: "t ! n \<in> set t" using assms by (simp add: shape4_def)
  then show len: "length (t ! n) = h" using assms by (simp add: shape4_def)
  show "shape2 (t ! n ! a) L d" if "a < h"
  proof -
    have "t ! n ! a \<in> set (t ! n)" using that len by simp
    then show ?thesis using mem assms by (auto simp: shape4_def)
  qed
qed

lemma shape4_length: "shape4 t N h L d \<Longrightarrow> length t = N"
  by (simp add: shape4_def)

lemma shape4_I:
  assumes "length t = N" "\<And>n. n < N \<Longrightarrow> length (t ! n) = h"
    "\<And>n a. n < N \<Longrightarrow> a < h \<Longrightarrow> shape2 (t ! n ! a) L d"
  shows "shape4 t N h L d"
  using assms by (auto simp: shape4_def in_set_conv_nth)

lemma matmul4_nth:
  assumes "n < length A" "n < length B" "a < length (A ! n)" "a < length (B ! n)"
  shows "matmul4 A B ! n ! a = matmul (A ! n ! a) (B ! n ! a)"
  using assms by (simp add: matmul4_def)

lemma matmul4_length:
  "length (matmul4 A B) = min (length A) (length B)"
  "n < length A \<Longrightarrow> n < length B \<Longrightarrow> length (matmul4 A B ! n) = min (length (A ! n)) (length (B ! n))"
  by (simp_all add: matmul4_def)

lemma size_last_shape4:
  assumes "shape4 t N h L d" "0 < N" "0 < h" "0 < L"
  shows "size_last t = d"
proof -
  have "t \<noteq> []" using assms by (auto simp: shape4_def)
  then have 1: "hd t = t ! 0" by (simp add: hd_conv_nth)
  have "length (t ! 0) = h" using assms shape4_nth(1) by blast
  then have 2: "hd (t ! 0) = t ! 0 ! 0" using assms by (cases "t ! 0") auto
  have s: "shape2 (t ! 0 ! 0) L d" using assms shape4_nth(2) by blast
  then have 3: "hd (t ! 0 ! 0) = t ! 0 ! 0 ! 0" using assms by (cases "t ! 0 ! 0") (auto simp: shape2_def)
  show ?thesis using s assms by (simp add: size_last_def 1 2 3 shape2_nth)
qed

lemma raw_scores:
  assumes q: "shape4 query N h L d_k" and k: "shape4 key N h S d_k"
    and pos: "0 < S" "0 < d_k"
  shows "shape4 (tdiv4 (matmul4 query (transpose_last2 key)) c) N h L S"
    and "n < N \<Longrightarrow> a < h \<Longrightarrow> i < L \<Longrightarrow> j < S \<Longrightarrow>
         tdiv4 (matmul4 query (transpose_last2 key)) c ! n ! a ! i ! j
           = (\<Sum>t<d_k. query ! n ! a ! i ! t * key ! n ! a ! j ! t) / c"
proof -
  let ?T = "transpose_last2 key"
  let ?M = "matmul4 query ?T"
  have lq: "length query = N" and lk: "length key = N"
    using q k by (simp_all add: shape4_length)
  have lT: "length ?T = N" by (simp add: transpose_last2_def lk)
  have lTn: "length (?T ! n) = h" if "n < N" for n
    using that shape4_nth(1) [OF k that] by (simp add: transpose_last2_def lk)
  have Tna: "?T ! n ! a = transpose (key ! n ! a)" if "n < N" "a < h" for n a
    using that shape4_nth(1) [OF k that(1)] by (simp add: transpose_last2_def lk)
  have Mna: "?M ! n ! a = matmul (query ! n ! a) (transpose (key ! n ! a))"
    if "n < N" "a < h" for n a
    using that matmul4_nth [of n query ?T a] lq lT lTn [OF that(1)] shape4_nth(1) [OF q that(1)]
      Tna [OF that] by simp
  have sh: "shape2 (?M ! n ! a) L S" if "n < N" "a < h" for n a
  proof -
    have "shape2 (transpose (key ! n ! a)) d_k S"
      using shape2_transpose [OF shape4_nth(2) [OF k that] pos(1)] .
    from matmul_shape [OF this pos(2), of "query ! n ! a"] shape4_nth(2) [OF q that]
    show ?thesis by (simp add: Mna [OF that] shape2_def)
  qed
  have lM: "length ?M = N" by (simp add: matmul4_length lq lT)
  have lMn: "length (?M ! n) = h" if "n < N" for n
    using that lq lT lTn [OF that] shape4_nth(1) [OF q that] by (simp add: matmul4_length)
  show "shape4 (tdiv4 ?M c) N h L S"
  proof (rule shape4_I)
    show "length (tdiv4 ?M c) = N" by (simp add: tdiv4_def lM)
    show "length (tdiv4 ?M c ! n) = h" if "n < N" for n
      using that lM lMn by (simp add: tdiv4_def)
    show "shape2 (tdiv4 ?M c ! n ! a) L S" if "n < N" "a < h" for n a
      using that lM lMn sh [OF that] by (simp add: tdiv4_def shape2_def)
  qed
  show "tdiv4 ?M c ! n ! a ! i ! j = (\<Sum>t<d_k. query ! n ! a ! i ! t * key ! n ! a ! j ! t) / c"
    if "n < N" "a < h" "i < L" "j < S"
  proof -
    have qs: "shape2 (query ! n ! a) L d_k" using shape4_nth(2) [OF q that(1,2)] .
    have "tdiv4 ?M c ! n ! a ! i ! j = ?M ! n ! a ! i ! j / c"
      using that lM lMn sh [OF that(1,2)] by (simp add: tdiv4_def shape2_def)
    also have "?M ! n ! a ! i ! j = (\<Sum>t<d_k. query ! n ! a ! i ! t * key ! n ! a ! j ! t)"
      unfolding Mna [OF that(1,2)]
      using qs that by (intro matmul_transpose_nth [OF shape4_nth(2) [OF k that(1,2)] pos])
        (simp_all add: shape2_def)
    finally show ?thesis .
  qed
qed

lemma masked_fill_shape:
  assumes "shape4 scores N h L S"
  shows "shape4 (masked_fill scores m v) N h L S"
proof (rule shape4_I)
  show "length (masked_fill scores m v) = N"
    using assms by (simp add: masked_fill_def shape4_length)
  show "length (masked_fill scores m v ! n) = h" if "n < N" for n
    using that assms shape4_nth(1) [OF assms that] by (simp add: masked_fill_def shape4_length)
  show "shape2 (masked_fill scores m v ! n ! a) L S" if "n < N" "a < h" for n a
    using that shape4_nth(1) [OF assms that(1)] shape4_nth(2) [OF assms that]
    by (simp add: masked_fill_def shape4_length [OF assms] shape2_def)
qed

lemma masked_fill_nth:
  assumes "shape4 scores N h L S" "n < N" "a < h" "i < L" "j < S"
  shows "masked_fill scores m v ! n ! a ! i ! j =
           (if bget (bget (bget (bget m n) a) i) j = 0 then v else scores ! n ! a ! i ! j)"
  using assms(2-) shape4_nth(1) [OF assms(1,2)] shape4_nth(2) [OF assms(1,2,3)]
  by (simp add: masked_fill_def shape4_length [OF assms(1)] shape2_def)

lemma sum_list_exp_nth: "sum_list (map exp xs) = (\<Sum>j<length xs. exp (xs ! j))"
  by (simp add: sum_list_sum_nth atLeast0LessThan)

lemma softmax_shape:
  assumes "shape4 t N h L S"
  shows "shape4 (softmax t) N h L S"
proof (rule shape4_I)
  show "length (softmax t) = N" using assms by (simp add: softmax_def shape4_length)
  show "length (softmax t ! n) = h" if "n < N" for n
    using that shape4_nth(1) [OF assms that] by (simp add: softmax_def shape4_length [OF assms])
  show "shape2 (softmax t ! n ! a) L S" if "n < N" "a < h" for n a
    using that shape4_nth(1) [OF assms that(1)] shape4_nth(2) [OF assms that]
    by (simp add: softmax_def softmax_row_def shape4_length [OF assms] shape2_def)
qed

lemma softmax_nth:
  assumes "shape4 t N h L S" "n < N" "a < h" "i < L" "j < S"
  shows "softmax t ! n ! a ! i ! j = exp (t ! n ! a ! i ! j) / (\<Sum>j'<S. exp (t ! n ! a ! i ! j'))"
  using assms(2-) shape4_nth(1) [OF assms(1,2)] shape4_nth(2) [OF assms(1,2,3)]
  by (simp add: softmax_def softmax_row_def shape4_length [OF assms(1)] shape2_def
        sum_list_exp_nth)

lemma sum_list_divide:
  "(\<Sum>x\<leftarrow>xs. f x / c) = (\<Sum>x\<leftarrow>xs. f x) / (c::real)"
  by (induction xs) (simp_all add: add_divide_distrib)

lemma softmax_row_sum:
  assumes "xs \<noteq> []"
  shows "sum_list (softmax_row xs) = 1"
proof -
  have "0 \<le> sum_list (map exp ys)" for ys :: "real list"
    by (rule sum_list_nonneg) auto
  then have pos: "0 < sum_list (map exp xs)"
    using assms by (cases xs) (auto intro: add_pos_nonneg)
  have "sum_list (softmax_row xs) = sum_list (map exp xs) / sum_list (map exp xs)"
    by (simp add: softmax_row_def sum_list_divide)
  then show ?thesis using pos by simp
qed

lemma unflatten_shape:
  assumes "shape4 t N h L S"
  shows "shape4 (unflatten t flat) N h L S"
proof (rule shape4_I)
  show "length (unflatten t flat) = N" using assms by (simp add: unflatten_def shape4_length)
  show "length (unflatten t flat ! n) = h" if "n < N" for n
    using that shape4_nth(1) [OF assms that] by (simp add: unflatten_def shape4_length [OF assms])
  show "shape2 (unflatten t flat ! n ! a) L S" if "n < N" "a < h" for n a
    using that shape4_nth(1) [OF assms that(1)] shape4_nth(2) [OF assms that]
    by (simp add: unflatten_def shape4_length [OF assms] shape2_def)
qed

lemma Dropout_forward_shape:
  assumes "shape4 t N h L S"
  shows "shape4 (fst (Dropout_forward d g t)) N h L S"
  using assms by (simp add: Dropout_forward_def Let_def split_beta unflatten_shape)

lemma Dropout_forward_identity:
  "\<not> training d \<or> prob d = 0 \<Longrightarrow> Dropout_forward d g t = (t, g)"
  by (auto simp: Dropout_forward_def)

lemma matmul4_value:
  assumes P: "shape4 P N h L S" and v: "shape4 value N h S d_v" and pos: "0 < S"
  shows "shape4 (matmul4 P value) N h L d_v"
    and "n < N \<Longrightarrow> a < h \<Longrightarrow> i < L \<Longrightarrow> c < d_v \<Longrightarrow>
         matmul4 P value ! n ! a ! i ! c = (\<Sum>j<S. P ! n ! a ! i ! j * value ! n ! a ! j ! c)"
proof -
  have lP: "length P = N" and lv: "length value = N"
    using P v by (simp_all add: shape4_length)
  have na: "matmul4 P value ! n ! a = matmul (P ! n ! a) (value ! n ! a)"
    if "n < N" "a < h" for n a
    using that lP lv shape4_nth(1) [OF P that(1)] shape4_nth(1) [OF v that(1)]
    by (simp add: matmul4_nth)
  show "shape4 (matmul4 P value) N h L d_v"
  proof (rule shape4_I)
    show "length (matmul4 P value) = N" by (simp add: matmul4_length lP lv)
    show "length (matmul4 P value ! n) = h" if "n < N" for n
      using that lP lv shape4_nth(1) [OF P that] shape4_nth(1) [OF v that]
      by (simp add: matmul4_length)
    show "shape2 (matmul4 P value ! n ! a) L d_v" if "n < N" "a < h" for n a
      using matmul_shape [OF shape4_nth(2) [OF v that] pos, of "P ! n ! a"]
        shape4_nth(2) [OF P that]
      by (simp add: na [OF that] shape2_def)
  qed
  show "matmul4 P value ! n ! a ! i ! c = (\<Sum>j<S. P ! n ! a ! i ! j * value ! n ! a ! j ! c)"
    if "n < N" "a < h" "i < L" "c < d_v"
    unfolding na [OF that(1,2)]
    using that shape4_nth(2) [OF P that(1,2)]
    by (intro matmul_nth [OF shape4_nth(2) [OF v that(1,2)] pos]) (simp_all add: shape2_def)
qed

lemma attention_scores_spec:
  assumes q: "shape4 query N h L d_k" and k: "shape4 key N h S d_k"
    and pos: "0 < N" "0 < h" "0 < L" "0 < S" "0 < d_k"
  shows "shape4 (attention_scores query key mask_opt) N h L S"
    and "n < N \<Longrightarrow> a < h \<Longrightarrow> i < L \<Longrightarrow> j < S \<Longrightarrow>
         attention_scores query key mask_opt ! n ! a ! i ! j
           = scores_spec query key mask_opt d_k n a i j"
proof -
  have dk: "size_last query = d_k" using size_last_shape4 [OF q pos(1,2,3)] .
  note raw = raw_scores [OF q k pos(4,5), where c = "sqrt (real d_k)"]
  show "shape4 (attention_scores query key mask_opt) N h L S"
    using raw(1) by (cases mask_opt) (simp_all add: attention_scores_def dk masked_fill_shape)
  show "attention_scores query key mask_opt ! n ! a ! i ! j
           = scores_spec query key mask_opt d_k n a i j"
    if "n < N" "a < h" "i < L" "j < S"
    using raw(2) [OF that] masked_fill_nth [OF raw(1) that]
    by (cases mask_opt) (simp_all add: attention_scores_def dk scores_spec_def mask_zero_def)
qed

lemma attention_unfold:
  "attention query key value mask_opt dropout g =
     (case (case dropout of None \<Rightarrow> (softmax (attention_scores query key mask_opt), g)
            | Some d \<Rightarrow> Dropout_forward d g (softmax (attention_scores query key mask_opt)))
      of (P, g') \<Rightarrow> ((matmul4 P value, P), g'))"
  by (cases dropout; cases mask_opt) (simp_all add: attention_def attention_scores_def Let_def)

lemma ex_shapes:
  "shape4 [[[[1::real]]]] 1 1 1 1" "shape4 [[[[1::real], [2]]]] 1 1 2 1" "shape4 [[[[3::real], [4]]]] 1 1 2 1"
  "mask_fits (Some [[[[1, 0]]]]) 1 1 1 2" "dropout_is_identity None"
  by (simp_all add: shape4_def shape2_def mask_fits_def dropout_is_identity_def)

text \<open>
  C4. For query \<open>(N, h, L, d_k)\<close>, key \<open>(N, h, S, d_k)\<close>, value \<open>(N, h, S, d_v)\<close>
  and an optional mask, \<open>attention\<close> computes the scores \<open>(query \<cdot> key\<^sup>T) / sqrt d_k\<close>,
  replaces every score whose mask entry is zero by \<open>-1e9\<close>, takes the softmax along the
  key axis (the tensor \<open>W\<close>), applies dropout to the weights when a dropout module is
  supplied (the tensor \<open>P\<close>), and returns the pair of \<open>P \<cdot> value\<close>, of shape
  \<open>(N, h, L, d_v)\<close>, and \<open>P\<close>.
\<close>

theorem attention_computes:
  assumes "shape4 query N h L d_k" and "shape4 key N h S d_k" and "shape4 value N h S d_v"
    and "0 < N" and "0 < h" and "0 < L" and "0 < S" and "0 < d_k"
    and "mask_fits mask_opt N h L S"
  shows "\<exists>W P g'.
           attention query key value mask_opt dropout g = ((matmul4 P value, P), g') \<and>
           shape4 W N h L S \<and>
           (\<forall>n<N. \<forall>a<h. \<forall>i<L. \<forall>j<S.
              W ! n ! a ! i ! j = weights_spec query key mask_opt d_k S n a i j) \<and>
           (P, g') = (case dropout of None \<Rightarrow> (W, g) | Some d \<Rightarrow> Dropout_forward d g W) \<and>
           shape4 (matmul4 P value) N h L d_v \<and>
           (\<forall>n<N. \<forall>a<h. \<forall>i<L. \<forall>c<d_v.
              matmul4 P value ! n ! a ! i ! c
                = (\<Sum>j<S. P ! n ! a ! i ! j * value ! n ! a ! j ! c))"
proof -
  define W where "W = softmax (attention_scores query key mask_opt)"
  define R where "R = (case dropout of None \<Rightarrow> (W, g) | Some d \<Rightarrow> Dropout_forward d g W)"
  note sc = attention_scores_spec [OF assms(1,2,4-8), where mask_opt = mask_opt]
  have shW: "shape4 W N h L S" unfolding W_def using sc(1) by (rule softmax_shape)
  have entW: "W ! n ! a ! i ! j = weights_spec query key mask_opt d_k S n a i j"
    if "n < N" "a < h" "i < L" "j < S" for n a i j
    using that sc(2) by (simp add: W_def softmax_nth [OF sc(1) that] weights_spec_def)
  have shP: "shape4 (fst R) N h L S"
    unfolding R_def using shW by (cases dropout) (simp_all add: Dropout_forward_shape)
  note mv = matmul4_value [OF shP assms(3,7)]
  have att: "attention query key value mask_opt dropout g = ((matmul4 (fst R) value, fst R), snd R)"
    unfolding R_def W_def by (simp add: attention_unfold split_beta)
  have R: "(fst R, snd R) = (case dropout of None \<Rightarrow> (W, g) | Some d \<Rightarrow> Dropout_forward d g W)"
    by (simp add: R_def)
  show ?thesis
    using att shW entW R mv by blast
qed

theorem attention_computes_witness:
  "shape4 [[[[1::real]]]] 1 1 1 1 \<and> shape4 [[[[1::real], [2]]]] 1 1 2 1 \<and>
   shape4 [[[[3::real], [4]]]] 1 1 2 1 \<and> mask_fits (Some [[[[1, 0]]]]) 1 1 1 2 \<and>
   (\<exists>W P g'.
      attention [[[[1]]]] [[[[1], [2]]]] [[[[3], [4]]]] (Some [[[[1, 0]]]]) None
          (const_generator 0)
        = ((matmul4 P [[[[3], [4]]]], P), g') \<and>
      W ! 0 ! 0 ! 0 ! 1
        = weights_spec [[[[1]]]] [[[[1], [2]]]] (Some [[[[1, 0]]]]) 1 2 0 0 0 1 \<and>
      (P, g') = (W, (const_generator 0)) \<and>
      matmul4 P [[[[3], [4]]]] ! 0 ! 0 ! 0 ! 0
        = (\<Sum>j<2. P ! 0 ! 0 ! 0 ! j * [[[[3], [4]]]] ! 0 ! 0 ! j ! 0))"
proof -
  obtain W P g' where
    "attention [[[[1]]]] [[[[1], [2]]]] [[[[3], [4]]]] (Some [[[[1, 0]]]]) None
          (const_generator 0)
        = ((matmul4 P [[[[3], [4]]]], P), g')"
    "\<forall>n<1. \<forall>a<1. \<forall>i<1. \<forall>j<2. W ! n ! a ! i ! j
        = weights_spec [[[[1]]]] [[[[1], [2]]]] (Some [[[[1, 0]]]]) 1 2 n a i j"
    "(P, g') = (case None of None \<Rightarrow> (W, (const_generator 0))
                | Some d \<Rightarrow> Dropout_forward d (const_generator 0) W)"
    "\<forall>n<1. \<forall>a<1. \<forall>i<1. \<forall>c<1. matmul4 P [[[[3], [4]]]] ! n ! a ! i ! c
        = (\<Sum>j<2. P ! n ! a ! i ! j * [[[[3], [4]]]] ! n ! a ! j ! c)"
    using attention_computes [OF ex_shapes(1,2,3) _ _ _ _ _ ex_shapes(4),
        where dropout = None and g = "const_generator 0"]
    by auto
  then show ?thesis
    using ex_shapes by (intro conjI exI [of _ W] exI [of _ P] exI [of _ g']) simp_all
qed

text \<open>
  C5, amended. For every valid input and every query row, fully masked or not, when no
  dropout module is supplied or the module returns its input (inference mode, or
  \<open>p = 0\<close>), the row of the weights that \<open>attention\<close> returns sums to 1.
\<close>

theorem attention_weights_rows_sum_to_one:
  assumes "shape4 query N h L d_k" and "shape4 key N h S d_k" and "shape4 value N h S d_v"
    and "0 < N" and "0 < h" and "0 < L" and "0 < S" and "0 < d_k"
    and "mask_fits mask_opt N h L S"
    and "dropout_is_identity dropout"
    and "n < N" and "a < h" and "i < L"
  shows "sum_list (snd (fst (attention query key value mask_opt dropout g)) ! n ! a ! i) = 1"
proof -
  let ?sc = "attention_scores query key mask_opt"
  note sc = attention_scores_spec(1) [OF assms(1,2,4-8), where mask_opt = mask_opt]
  have "snd (fst (attention query key value mask_opt dropout g)) = softmax ?sc"
    using assms(10)
    by (cases dropout) (auto simp: attention_unfold dropout_is_identity_def Dropout_forward_identity)
  moreover have "softmax ?sc ! n ! a ! i = softmax_row (?sc ! n ! a ! i)"
    using assms(11-) shape4_nth(1) [OF sc assms(11)] shape4_nth(2) [OF sc assms(11,12)]
    by (simp add: softmax_def shape4_length [OF sc] shape2_def)
  moreover have "?sc ! n ! a ! i \<noteq> []"
    using shape2_nth [OF shape4_nth(2) [OF sc assms(11,12)] assms(13)] assms(7) by auto
  ultimately show ?thesis by (simp add: softmax_row_sum)
qed

theorem attention_weights_rows_sum_to_one_witness:
  "shape4 [[[[1::real]]]] 1 1 1 1 \<and> shape4 [[[[1::real], [2]]]] 1 1 2 1 \<and>
   shape4 [[[[3::real], [4]]]] 1 1 2 1 \<and> mask_fits (Some [[[[1, 0]]]]) 1 1 1 2 \<and>
   dropout_is_identity None \<and>
   sum_list (snd (fst (attention [[[[1]]]] [[[[1], [2]]]] [[[[3], [4]]]] (Some [[[[1, 0]]]])
       None (const_generator 0))) ! 0 ! 0 ! 0) = 1"
  using attention_weights_rows_sum_to_one [OF ex_shapes(1,2,3) _ _ _ _ _ ex_shapes(4,5),
      of 0 0 0 "const_generator 0"] ex_shapes
  by simp

text \<open>
  C5 as stated fails: the weights returned are those after dropout. With a dropout module
  in training mode (\<open>p = 1/2\<close>, the single weight kept and scaled to 2) the row does
  not sum to 1.
\<close>

theorem attention_weights_dropout_counterexample:
  "sum_list (snd (fst (attention [[[[0]]]] [[[[0]]]] [[[[0]]]] None
       (Some \<lparr>prob = 1 / 2, training = True\<rparr>) (const_generator 0))) ! 0 ! 0 ! 0) \<noteq> 1"
  by (simp add: attention_def size_last_def matmul4_def transpose_last2_def matmul_def dot_def
      tdiv4_def softmax_def softmax_row_def Dropout_forward_def numel4_def next_draws_def
      unflatten_def const_generator_def Let_def)

text \<open>
  Over exact reals a fully masked row gets the uniform weights \<open>1 / S\<close>: all its
  scores are the same finite fill value.
\<close>

lemma fully_masked_row_uniform:
  assumes "shape4 query N h L d_k" and "shape4 key N h S d_k" and "shape4 value N h S d_v"
    and "0 < N" and "0 < h" and "0 < L" and "0 < S" and "0 < d_k"
    and "dropout_is_identity dropout"
    and "n < N" and "a < h" and "i < L" and "j < S"
    and masked: "\<forall>j'<S. mask_zero mask_opt n a i j'"
  shows "snd (fst (attention query key value mask_opt dropout g)) ! n ! a ! i ! j = 1 / real S"
proof -
  let ?sc = "attention_scores query key mask_opt"
  note sc = attention_scores_spec [OF assms(1,2,4-8), where mask_opt = mask_opt]
  have w: "snd (fst (attention query key value mask_opt dropout g)) = softmax ?sc"
    using assms(9)
    by (cases dropout) (auto simp: attention_unfold dropout_is_identity_def Dropout_forward_identity)
  have fill: "?sc ! n ! a ! i ! j' = - 1000000000" if "j' < S" for j'
    using sc(2) [OF assms(10-12) that] masked that by (simp add: scores_spec_def)
  have "softmax ?sc ! n ! a ! i ! j
          = exp (?sc ! n ! a ! i ! j) / (\<Sum>j'<S. exp (?sc ! n ! a ! i ! j'))"
    by (rule softmax_nth [OF sc(1) assms(10-13)])
  also have "\<dots> = exp (- 1000000000) / (\<Sum>j'<S. exp (- 1000000000 :: real))"
    using fill assms(13) by simp
  also have "\<dots> = 1 / real S" using assms(7) by simp
  finally show ?thesis by (simp add: w)
qed

subsection \<open>Sums of finite values\<close>

lemma foldl_fadd_Fin: "foldl fadd (Fin a) (map Fin xs) = Fin (a + sum_list xs)"
  by (induction xs arbitrary: a) (simp_all add: add.assoc)

lemma fsum_Fin: "fsum (map Fin xs) = Fin (sum_list xs)"
  by (simp add: fsum_def foldl_fadd_Fin)

subsection \<open>Attention on a fully masked row\<close>

text \<open>
  On finite values the softmax over \<open>fval\<close> is the softmax over the reals:
  subtracting the maximum of the row changes nothing in exact arithmetic.
\<close>

lemma foldl_fmax2_Fin:
  "foldl fmax2 (Fin a) (map Fin xs) = Fin (foldl max a xs)"
  by (induction xs arbitrary: a) simp_all

lemma fmax_Fin: "xs \<noteq> [] \<Longrightarrow> \<exists>M. fmax (map Fin xs) = Fin M"
  by (cases xs) (simp_all add: fmax_def foldl_fmax2_Fin)

lemma sum_list_exp_pos:
  fixes xs :: "real list"
  shows "xs \<noteq> [] \<Longrightarrow> 0 < sum_list (map (\<lambda>x. exp (x - M)) xs)"
proof (cases xs)
  case (Cons a ys)
  have "0 \<le> sum_list (map (\<lambda>x. exp (x - M)) ys)" by (rule sum_list_nonneg) auto
  then show ?thesis using Cons by (simp add: add_pos_nonneg)
qed simp

lemma sum_list_exp_shift:
  fixes xs :: "real list"
  shows "sum_list (map (\<lambda>x. exp (x - M)) xs) = sum_list (map exp xs) / exp M"
  by (induction xs) (simp_all add: exp_diff add_divide_distrib)

lemma fsoftmax_row_Fin:
  assumes "xs \<noteq> []"
  shows "fsoftmax_row (map Fin xs) = map Fin (softmax_row xs)"
proof -
  obtain M where M: "fmax (map Fin xs) = Fin M" using fmax_Fin [OF assms] by blast
  have es: "map (\<lambda>x. fexp (fsub x (Fin M))) (map Fin xs) = map Fin (map (\<lambda>x. exp (x - M)) xs)"
    by (simp add: fsub_def)
  have pos: "sum_list (map (\<lambda>x. exp (x - M)) xs) \<noteq> 0"
    using sum_list_exp_pos [OF assms, of M] by simp
  have "fsoftmax_row (map Fin xs)
          = map (\<lambda>e. fdiv e (Fin (sum_list (map (\<lambda>x. exp (x - M)) xs))))
              (map Fin (map (\<lambda>x. exp (x - M)) xs))"
    unfolding fsoftmax_row_def M Let_def es fsum_Fin ..
  also have "\<dots> = map Fin (map (\<lambda>x. exp (x - M) / sum_list (map (\<lambda>x. exp (x - M)) xs)) xs)"
    using pos by simp
  also have "\<dots> = map Fin (softmax_row xs)"
    unfolding sum_list_exp_shift by (simp add: softmax_row_def exp_diff)
  finally show ?thesis .
qed

text \<open>A row filled with \<open>-inf\<close> in place of \<open>-1e9\<close> has NaN weights.\<close>

lemma fsoftmax_row_neg_inf: "fsoftmax_row [NInf, NInf] = [NaN, NaN]"
  by (simp add: fsoftmax_row_def fmax_def fsum_def fsub_def)


















lemma is_Fin_iff: "is_Fin v \<longleftrightarrow> (\<exists>r. v = Fin r)"
  by (cases v) simp_all

lemma fmul_Fin: "is_Fin v \<Longrightarrow> is_Fin (fmul v (Fin c))"
  by (auto simp: is_Fin_iff)











subsection \<open>LayerNorm\<close>

lemma std_row_short: "length xs \<le> 1 \<Longrightarrow> std_row xs = NaN"
proof (cases xs)
  case Nil
  then show ?thesis by (simp add: std_row_def mean_row_def fsum_def)
next
  case (Cons v vs)
  assume "length xs \<le> 1"
  with Cons have "xs = [v]" by simp
  then show ?thesis
    by (cases v) (simp_all add: std_row_def mean_row_def fsum_def fsub_def)
qed

lemma set_chunks: "c \<in> set (chunks d n xs) \<Longrightarrow> set c \<subseteq> set xs \<and> length c \<le> n"
proof -
  assume "c \<in> set (chunks d n xs)"
  then obtain i where c: "c = take n (drop (i * n) xs)" by (auto simp: chunks_def)
  have "set c \<subseteq> set (drop (i * n) xs)" unfolding c by (rule set_take_subset)
  also have "\<dots> \<subseteq> set xs" by (rule set_drop_subset)
  finally show ?thesis by (simp add: c)
qed

lemma set_expand: "set (expand s t xs) \<subseteq> set xs"
proof (induction s t xs rule: expand.induct)
  case (1 d ds e es xs)
  show ?case
  proof (cases "d = e")
    case True
    have "set (expand ds es c) \<subseteq> set xs" if "c \<in> set (chunks d (prod_list ds) xs)" for c
      using "1.IH"(1) [OF True that] set_chunks [OF that] by blast
    then show ?thesis using True by auto
  next
    case False
    then show ?thesis using "1.IH"(2) [OF False] by (auto split: if_splits)
  qed
qed simp_all

lemma binop_data:
  assumes "binop f a b = Inr r" "v \<in> set (data r)"
  shows "\<exists>u\<in>set (data a). \<exists>w\<in>set (data b). v = f u w"
proof (cases "broadcast_shapes (shape a) (shape b)")
  case None
  then show ?thesis using assms(1) by (simp add: binop_def)
next
  case (Some s)
  let ?xs = "expand (pad_shape (shape a) s) s (data a)"
  let ?ys = "expand (pad_shape (shape b) s) s (data b)"
  have "r = \<lparr>shape = s, data = map2 f ?xs ?ys\<rparr>"
    using assms(1) Some by (simp add: binop_def)
  then have "data r = map2 f ?xs ?ys" by simp
  with assms(2) obtain q where q: "q \<in> set (zip ?xs ?ys)" "v = f (fst q) (snd q)"
    by (auto simp: split_beta)
  have "(fst q, snd q) \<in> set (zip ?xs ?ys)" using q(1) by simp
  then have "fst q \<in> set ?xs" "snd q \<in> set ?ys"
    by (rule set_zip_leftD, rule set_zip_rightD)
  then have "fst q \<in> set (data a)" "snd q \<in> set (data b)"
    using set_expand [of "pad_shape (shape a) s" s "data a"]
      set_expand [of "pad_shape (shape b) s" s "data b"] by auto
  then show ?thesis using q(2) by blast
qed

lemma bshape_rev_Nil2: "bshape_rev xs [] = Some xs"
  by (cases xs) simp_all

lemma bshape_rev_same: "bshape_rev xs xs = Some xs"
  by (induction xs) simp_all

lemma broadcast_shapes_same: "broadcast_shapes s s = Some s"
  by (simp add: broadcast_shapes_def bshape_rev_same)

lemma broadcast_shapes_feature:
  "broadcast_shapes [f] (s @ [1]) = Some (s @ [f])"
  "broadcast_shapes (s @ [f]) (s @ [1]) = Some (s @ [f])"
  "broadcast_shapes (s @ [f]) [f] = Some (s @ [f])"
  by (simp_all add: broadcast_shapes_def bshape_rev_same bshape_rev_Nil2)

lemma binop_shape:
  "broadcast_shapes (shape a) (shape b) = Some s \<Longrightarrow> \<exists>r. binop f a b = Inr r \<and> shape r = s"
  by (simp add: binop_def)

lemma fadd_NaN2 [simp]: "fadd x NaN = NaN"
  by (cases x) simp_all

lemma fdiv_NaN2 [simp]: "fdiv x NaN = NaN"
  by (cases x) simp_all

lemma rows_feature_one:
  assumes "shape x = s @ [1]" "c \<in> set (rows x)"
  shows "length c \<le> 1"
  using assms set_chunks [of c "prod_list s" 1 "data x"] by (simp add: rows_def last_dim_def)

lemma tstd_feature_one:
  assumes "shape x = s @ [1]" "v \<in> set (data (tstd x))"
  shows "v = NaN"
  using assms rows_feature_one [OF assms(1)] by (auto simp: tstd_def std_row_short)

lemma keepdim_shape_one: "keepdim_shape (s @ [d]) = s @ [1]"
  by (simp add: keepdim_shape_def)

lemma LayerNorm_forward_feature_one:
  assumes x: "shape x = s @ [1]"
    and w: "shape (ln_weight layer) = [f]" and b: "shape (ln_bias layer) = [f]"
  shows "\<exists>r. LayerNorm_forward layer x = Inr r \<and> shape r = s @ [f] \<and>
           (\<forall>v\<in>set (data r). v = NaN)"
proof -
  let ?std = "tadd_scalar (tstd x) (eps layer)"
  have shm: "shape (tmean x) = s @ [1]" by (simp add: tmean_def x keepdim_shape_one)
  have shs: "shape ?std = s @ [1]" by (simp add: tadd_scalar_def tstd_def x keepdim_shape_one)
  have nan: "v = NaN" if "v \<in> set (data ?std)" for v
  proof -
    from that obtain u where u: "u \<in> set (data (tstd x))" "v = fadd u (Fin (eps layer))"
      by (auto simp: tadd_scalar_def)
    then show ?thesis using tstd_feature_one [OF x u(1)] by simp
  qed
  have "broadcast_shapes (shape x) (shape (tmean x)) = Some (s @ [1])"
    unfolding x shm by (rule broadcast_shapes_same)
  from binop_shape [OF this] obtain centred where
    c: "binop fsub x (tmean x) = Inr centred" "shape centred = s @ [1]" by blast
  have "broadcast_shapes (shape (ln_weight layer)) (shape centred) = Some (s @ [f])"
    unfolding w c(2) by (rule broadcast_shapes_feature(1))
  from binop_shape [OF this] obtain scaled where
    sc: "binop fmul (ln_weight layer) centred = Inr scaled" "shape scaled = s @ [f]" by blast
  have "broadcast_shapes (shape scaled) (shape ?std) = Some (s @ [f])"
    unfolding sc(2) shs by (rule broadcast_shapes_feature(2))
  from binop_shape [OF this] obtain normed where
    n: "binop fdiv scaled ?std = Inr normed" "shape normed = s @ [f]" by blast
  have "broadcast_shapes (shape normed) (shape (ln_bias layer)) = Some (s @ [f])"
    unfolding n(2) b by (rule broadcast_shapes_feature(3))
  from binop_shape [OF this] obtain r where
    r: "binop fadd normed (ln_bias layer) = Inr r" "shape r = s @ [f]" by blast
  have nn: "v = NaN" if "v \<in> set (data normed)" for v
  proof -
    from binop_data [OF n(1) that] obtain u w where
      "w \<in> set (data ?std)" "v = fdiv u w" by blast
    then show ?thesis using nan [of w] by simp
  qed
  have rn: "v = NaN" if "v \<in> set (data r)" for v
  proof -
    from binop_data [OF r(1) that] obtain u w where
      "u \<in> set (data normed)" "v = fadd u w" by blast
    then show ?thesis using nn [of u] by simp
  qed
  have "LayerNorm_forward layer x = Inr r"
    by (simp add: LayerNorm_forward_def Let_def and_then_def c(1) sc(1) n(1) r(1))
  then show ?thesis using r(2) rn by blast
qed

lemma chunks_Suc: "chunks (Suc d) n xs = chunks d n xs @ [take n (drop (d * n) xs)]"
  by (simp add: chunks_def)

lemma concat_chunks: "concat (chunks d n xs) = take (d * n) xs"
proof (induction d)
  case 0
  then show ?case by (simp add: chunks_def)
next
  case (Suc d)
  have "take (d * n) xs @ take n (drop (d * n) xs) = take (d * n + n) xs"
    by (simp add: take_add)
  then show ?case by (simp add: chunks_Suc Suc add.commute)
qed

lemma expand_Nil_id: "expand [] [] = (\<lambda>c. c)"
  by (rule ext) simp

lemma expand_same_1d: "length xs = F \<Longrightarrow> expand [F] [F] xs = xs"
  by (simp add: expand_Nil_id concat_chunks)

lemma concat_replicate_single: "concat (replicate n [y]) = replicate n y"
  by (induction n) simp_all

lemma expand_one_1d: "expand [Suc 0] [F] [y] = replicate F y"
proof (cases "F = Suc 0")
  case True
  then show ?thesis using expand_same_1d [of "[y]" "Suc 0"] by simp
next
  case False
  then show ?thesis by (simp add: concat_replicate_single)
qed

lemma broadcast_shapes_1d:
  "broadcast_shapes [F] [F] = Some [F]" "broadcast_shapes [F] [Suc 0] = Some [F]"
  by (simp_all add: broadcast_shapes_def)

lemma binop_same_1d:
  assumes "length xs = F" "length ys = F"
  shows "binop f \<lparr>shape = [F], data = xs\<rparr> \<lparr>shape = [F], data = ys\<rparr>
           = Inr \<lparr>shape = [F], data = map2 f xs ys\<rparr>"
  using assms by (simp add: binop_def broadcast_shapes_1d pad_shape_def expand_same_1d
      del: expand.simps)

lemma binop_scalar_1d:
  assumes "length xs = F"
  shows "binop f \<lparr>shape = [F], data = xs\<rparr> \<lparr>shape = [Suc 0], data = [y]\<rparr>
           = Inr \<lparr>shape = [F], data = map (\<lambda>x. f x y) xs\<rparr>"
proof -
  have "map2 f xs (replicate F y) = map (\<lambda>x. f x y) xs"
    using assms by (intro nth_equalityI) simp_all
  then show ?thesis
    using assms by (simp add: binop_def broadcast_shapes_1d pad_shape_def expand_same_1d
        expand_one_1d del: expand.simps)
qed

lemma mean_row_Fin: "xs \<noteq> [] \<Longrightarrow> mean_row (map Fin xs) = Fin (sum_list xs / real (length xs))"
  by (simp add: mean_row_def fsum_Fin)

lemma std_row_Fin:
  assumes "2 \<le> length xs"
  shows "std_row (map Fin xs) = Fin (sample_std xs)"
proof -
  let ?m = "sum_list xs / real (length xs)"
  have ne: "xs \<noteq> []" using assms by auto
  have "map (\<lambda>x. fmul (fsub x (Fin ?m)) (fsub x (Fin ?m))) (map Fin xs)
          = map Fin (map (\<lambda>x. (x - ?m)\<^sup>2) xs)"
    by (simp add: fsub_def power2_eq_square)
  moreover have "0 \<le> (\<Sum>x\<leftarrow>xs. (x - ?m)\<^sup>2) / (real (length xs) - 1)"
    using assms by (intro divide_nonneg_nonneg sum_list_nonneg) auto
  moreover have "real (length xs - 1) = real (length xs) - 1" "real (length xs) - 1 \<noteq> 0"
    using assms by (simp_all add: of_nat_diff)
  ultimately show ?thesis
    by (simp add: std_row_def mean_row_Fin [OF ne] fsum_Fin sample_std_def Let_def
        del: map_map)
qed

lemma rows_1d: "length xs = F \<Longrightarrow> rows \<lparr>shape = [F], data = xs\<rparr> = [xs]"
  by (simp add: rows_def last_dim_def chunks_def)

lemma sample_std_nonneg: "2 \<le> length xs \<Longrightarrow> 0 \<le> sample_std xs"
  unfolding sample_std_def Let_def real_sqrt_ge_0_iff
  by (intro divide_nonneg_nonneg sum_list_nonneg) auto

lemma LayerNorm_forward_1d:
  assumes F: "2 \<le> length xs" and ws: "length ws = length xs" and bs: "length bs = length xs"
    and e: "0 < e"
  shows "LayerNorm_forward
           \<lparr>ln_weight = \<lparr>shape = [length xs], data = map Fin ws\<rparr>,
            ln_bias = \<lparr>shape = [length xs], data = map Fin bs\<rparr>, eps = e\<rparr>
           \<lparr>shape = [length xs], data = map Fin xs\<rparr>
         = Inr \<lparr>shape = [length xs],
                data = map (\<lambda>i. Fin (ws ! i * (xs ! i - mean_spec xs) / (sample_std xs + e) + bs ! i))
                         [0..<length xs]\<rparr>"
proof -
  let ?F = "length xs"
  let ?x = "\<lparr>shape = [?F], data = map Fin xs\<rparr>"
  have ne: "xs \<noteq> []" using F by auto
  have mean: "tmean ?x = \<lparr>shape = [Suc 0], data = [Fin (mean_spec xs)]\<rparr>"
    by (simp add: tmean_def rows_1d keepdim_shape_def mean_row_Fin [OF ne] mean_spec_def)
  have std: "tadd_scalar (tstd ?x) e = \<lparr>shape = [Suc 0], data = [Fin (sample_std xs + e)]\<rparr>"
    by (simp add: tstd_def tadd_scalar_def rows_1d keepdim_shape_def std_row_Fin [OF F])
  have c: "binop fsub ?x (tmean ?x)
             = Inr \<lparr>shape = [?F], data = map (\<lambda>x. Fin (x - mean_spec xs)) xs\<rparr>"
    unfolding mean by (simp add: binop_scalar_1d fsub_def comp_def)
  have sc: "binop fmul \<lparr>shape = [?F], data = map Fin ws\<rparr>
               \<lparr>shape = [?F], data = map (\<lambda>x. Fin (x - mean_spec xs)) xs\<rparr>
             = Inr \<lparr>shape = [?F],
                    data = map (\<lambda>i. Fin (ws ! i * (xs ! i - mean_spec xs))) [0..<?F]\<rparr>"
    using ws by (simp add: binop_same_1d) (intro nth_equalityI; simp)
  have nz: "sample_std xs + e \<noteq> 0" using sample_std_nonneg [OF F] e by linarith
  have n: "binop fdiv \<lparr>shape = [?F],
                    data = map (\<lambda>i. Fin (ws ! i * (xs ! i - mean_spec xs))) [0..<?F]\<rparr>
               \<lparr>shape = [Suc 0], data = [Fin (sample_std xs + e)]\<rparr>
             = Inr \<lparr>shape = [?F],
                    data = map (\<lambda>i. Fin (ws ! i * (xs ! i - mean_spec xs) / (sample_std xs + e)))
                             [0..<?F]\<rparr>"
    using nz by (simp add: binop_scalar_1d comp_def)
  have r: "binop fadd \<lparr>shape = [?F],
                    data = map (\<lambda>i. Fin (ws ! i * (xs ! i - mean_spec xs) / (sample_std xs + e)))
                             [0..<?F]\<rparr>
               \<lparr>shape = [?F], data = map Fin bs\<rparr>
             = Inr \<lparr>shape = [?F],
                    data = map (\<lambda>i. Fin (ws ! i * (xs ! i - mean_spec xs) / (sample_std xs + e)
                                          + bs ! i)) [0..<?F]\<rparr>"
    using bs by (simp add: binop_same_1d) (intro nth_equalityI; simp)
  show ?thesis
    by (simp add: LayerNorm_forward_def Let_def and_then_def c sc std n r)
qed

lemma sample_vs_population: "sample_std [0, 2] = sqrt 2" "population_std [0, 2] = 1"
  by (simp_all add: sample_std_def population_std_def mean_spec_def Let_def)

lemma LayerNorm_feature_one_example:
  "LayerNorm_forward (LayerNorm_init 3 1) \<lparr>shape = [2, 1], data = [Fin 7, Fin 5]\<rparr>
     = Inr \<lparr>shape = [2, 3], data = [NaN, NaN, NaN, NaN, NaN, NaN]\<rparr>"
  by (simp add: LayerNorm_forward_def LayerNorm_init_def Let_def and_then_def binop_def
      broadcast_shapes_def pad_shape_def tmean_def tstd_def tadd_scalar_def rows_def
      last_dim_def keepdim_shape_def chunks_def mean_row_def std_row_def fsum_def fsub_def
      upt_conv_Cons numeral_3_eq_3 numeral_2_eq_2)

text \<open>
  C10. The divisor of \<open>LayerNorm.forward\<close> is the sample standard deviation over the
  last axis, with Bessel's correction (\<open>F - 1\<close>), plus \<open>eps\<close>: for a row of
  \<open>F \<ge> 2\<close> finite entries the output entry \<open>i\<close> is
  \<open>w\<^sub>i * (x\<^sub>i - mean) / (sample_std + eps) + b\<^sub>i\<close>, and the sample standard deviation is
  not the population one (they differ on the row \<open>0, 2\<close>). For feature width
  \<open>F = 1\<close> the standard deviation is NaN and every output entry is NaN.
\<close>

theorem LayerNorm_sample_std:
  "(2 \<le> length xs \<and> length ws = length xs \<and> length bs = length xs \<and> 0 < e \<longrightarrow>
      std_row (map Fin xs) = Fin (sample_std xs) \<and>
      LayerNorm_forward
           \<lparr>ln_weight = \<lparr>shape = [length xs], data = map Fin ws\<rparr>,
            ln_bias = \<lparr>shape = [length xs], data = map Fin bs\<rparr>, eps = e\<rparr>
           \<lparr>shape = [length xs], data = map Fin xs\<rparr>
         = Inr \<lparr>shape = [length xs],
                data = map (\<lambda>i. Fin (ws ! i * (xs ! i - mean_spec xs) / (sample_std xs + e) + bs ! i))
                         [0..<length xs]\<rparr>) \<and>
   sample_std [0, 2] \<noteq> population_std [0, 2] \<and>
   (shape x = s @ [1] \<and> shape (ln_weight layer) = [f] \<and> shape (ln_bias layer) = [f] \<longrightarrow>
      (\<forall>v\<in>set (data (tstd x)). v = NaN) \<and>
      (\<exists>r. LayerNorm_forward layer x = Inr r \<and> shape r = s @ [f] \<and>
           (\<forall>v\<in>set (data r). v = NaN)))"
proof (intro conjI impI)
  show "sample_std [0, 2] \<noteq> population_std [0, 2]"
    by (simp add: sample_vs_population)
qed (auto simp: std_row_Fin LayerNorm_forward_1d tstd_feature_one
       intro: LayerNorm_forward_feature_one)

theorem LayerNorm_sample_std_witness:
  "2 \<le> length [0, 2::real] \<and> length [1, 1::real] = length [0, 2::real] \<and>
   length [0, 0::real] = length [0, 2::real] \<and> (0::real) < 1 \<and>
   std_row (map Fin [0, 2]) = Fin (sample_std [0, 2]) \<and>
   shape \<lparr>shape = [2, 1], data = [Fin 7, Fin 5]\<rparr> = [2] @ [1] \<and>
   shape (ln_weight (LayerNorm_init 3 1)) = [3] \<and> shape (ln_bias (LayerNorm_init 3 1)) = [3] \<and>
   (\<exists>r. LayerNorm_forward (LayerNorm_init 3 1) \<lparr>shape = [2, 1], data = [Fin 7, Fin 5]\<rparr> = Inr r \<and>
        shape r = [2] @ [3] \<and> (\<forall>v\<in>set (data r). v = NaN))"
  using LayerNorm_sample_std [where xs = "[0, 2]" and ws = "[1, 1]" and bs = "[0, 0]" and e = 1
      and x = "\<lparr>shape = [2, 1], data = [Fin 7, Fin 5]\<rparr>" and s = "[2]"
      and layer = "LayerNorm_init 3 1" and f = 3]
  by (simp add: LayerNorm_init_def)

subsection \<open>SublayerConnection\<close>

lemma length_chunk:
  assumes "length xs = d * n" "c \<in> set (chunks d n xs)"
  shows "length c = n"
proof -
  from assms(2) obtain i where i: "i < d" "c = take n (drop (i * n) xs)"
    by (auto simp: chunks_def)
  have "Suc i * n \<le> d * n" using i(1) by (intro mult_le_mono1) simp
  then have "n \<le> d * n - i * n" by simp
  then show ?thesis using assms(1) i(2) by simp
qed

lemma expand_same: "length xs = prod_list s \<Longrightarrow> expand s s xs = xs"
proof (induction s arbitrary: xs)
  case Nil
  then show ?case by simp
next
  case (Cons d ds)
  have "map (expand ds ds) (chunks d (prod_list ds) xs) = chunks d (prod_list ds) xs"
    using Cons.IH length_chunk [of xs d "prod_list ds"] Cons.prems
    by (intro map_idI) simp
  then show ?case using Cons.prems by (simp add: concat_chunks)
qed

lemma binop_same_shape:
  assumes "wf_tensor a" "wf_tensor b" "shape b = shape a"
  shows "binop f a b = Inr \<lparr>shape = shape a, data = map2 f (data a) (data b)\<rparr>"
  using assms
  by (simp add: binop_def broadcast_shapes_same pad_shape_def expand_same wf_tensor_def)

lemma Dropout_tensor_shape: "shape (fst (Dropout_tensor d g y)) = shape y"
  by (simp add: Dropout_tensor_def split_beta)

lemma Dropout_tensor_wf: "wf_tensor y \<Longrightarrow> wf_tensor (fst (Dropout_tensor d g y))"
  by (simp add: Dropout_tensor_def wf_tensor_def next_draws_def split_beta)

lemma bshape_rev_None_iff:
  "bshape_rev xs ys = None \<longleftrightarrow>
     (\<exists>i. i < length xs \<and> i < length ys \<and> xs ! i \<noteq> ys ! i \<and> xs ! i \<noteq> 1 \<and> ys ! i \<noteq> 1)"
proof (induction xs ys rule: bshape_rev.induct)
  case (3 x xs y ys)
  have ex: "(\<exists>i. i < length (x # xs) \<and> i < length (y # ys) \<and> P i) \<longleftrightarrow>
            P 0 \<or> (\<exists>i. i < length xs \<and> i < length ys \<and> P (Suc i))" for P
    by (auto simp: less_Suc_eq_0_disj)
  show ?case
    unfolding ex using 3 by (auto split: if_splits)
qed simp_all

text \<open>
  Two shapes fail to broadcast exactly when, counted from the last dimension, some pair of
  dimensions differs with neither of them 1.
\<close>

lemma broadcast_shapes_None_iff:
  "broadcast_shapes s t = None \<longleftrightarrow>
     (\<exists>i. i < length s \<and> i < length t \<and> rev s ! i \<noteq> rev t ! i \<and> rev s ! i \<noteq> 1 \<and> rev t ! i \<noteq> 1)"
  by (simp add: broadcast_shapes_def bshape_rev_None_iff)

lemma SublayerConnection_forward_cases:
  assumes "LayerNorm_forward (sc_norm self) x = Inr nx" "sublayer nx g = Inr (y, g1)"
  shows "SublayerConnection_forward self g x sublayer =
           (case binop fadd x (fst (Dropout_tensor (sc_dropout self) g1 y)) of
              Inl e \<Rightarrow> Inl e
            | Inr r \<Rightarrow> Inr (r, snd (Dropout_tensor (sc_dropout self) g1 y)))"
  by (simp add: SublayerConnection_forward_def and_then_def assms split_beta split: sum.splits)

lemma LayerNorm_zero_row_example:
  "LayerNorm_forward (sc_norm (SublayerConnection_init 2 0)) \<lparr>shape = [2], data = [Fin 0, Fin 0]\<rparr>
     = Inr \<lparr>shape = [2], data = [Fin 0, Fin 0]\<rparr>"
  by (simp add: SublayerConnection_init_def LayerNorm_forward_def LayerNorm_init_def Let_def
      and_then_def binop_def broadcast_shapes_def pad_shape_def tmean_def tstd_def
      tadd_scalar_def rows_def last_dim_def keepdim_shape_def chunks_def mean_row_def
      std_row_def fsum_def fsub_def upt_conv_Cons numeral_2_eq_2)

text \<open>
  C7, amended. When the normalisation and the sublayer return, \<open>SublayerConnection.forward\<close>
  adds \<open>x\<close> and \<open>dropout(f(norm(x)))\<close> with the broadcasting addition of the tensor
  library. It raises, with the library's RuntimeError, exactly when the two shapes do not
  broadcast; when they do, also when they differ, it returns a tensor of the broadcast
  shape; when they are equal the sum is taken element by element. The code has no
  ShapeMismatchError and no test that the shapes are equal.
\<close>

theorem SublayerConnection_forward_broadcasts:
  assumes "LayerNorm_forward (sc_norm self) x = Inr nx" and "sublayer nx g = Inr (y, g1)"
  shows "(SublayerConnection_forward self g x sublayer = Inl RuntimeError
            \<longleftrightarrow> broadcast_shapes (shape x) (shape y) = None) \<and>
         (\<forall>s. broadcast_shapes (shape x) (shape y) = Some s \<longrightarrow>
            (\<exists>r g2. SublayerConnection_forward self g x sublayer = Inr (r, g2) \<and> shape r = s)) \<and>
         (shape y = shape x \<and> wf_tensor x \<and> wf_tensor y \<longrightarrow>
            SublayerConnection_forward self g x sublayer
              = Inr (\<lparr>shape = shape x,
                       data = map2 fadd (data x)
                                (data (fst (Dropout_tensor (sc_dropout self) g1 y)))\<rparr>,
                     snd (Dropout_tensor (sc_dropout self) g1 y)))"
proof -
  let ?d = "fst (Dropout_tensor (sc_dropout self) g1 y)"
  note fw = SublayerConnection_forward_cases [where sublayer = sublayer, OF assms]
  have sh: "shape ?d = shape y" by (rule Dropout_tensor_shape)
  have same: "binop fadd x ?d = Inr \<lparr>shape = shape x, data = map2 fadd (data x) (data ?d)\<rparr>"
    if "shape y = shape x" "wf_tensor x" "wf_tensor y"
    using that by (intro binop_same_shape) (simp_all add: sh Dropout_tensor_wf)
  show ?thesis
  proof (cases "broadcast_shapes (shape x) (shape y)")
    case None
    then have "binop fadd x ?d = Inl RuntimeError" by (simp add: binop_def sh)
    moreover have "shape y \<noteq> shape x" using None by (auto simp: broadcast_shapes_same)
    ultimately show ?thesis using None by (simp add: fw)
  next
    case (Some s)
    then obtain r where r: "binop fadd x ?d = Inr r" "shape r = s"
      using binop_shape [of x ?d s fadd] by (auto simp: sh)
    show ?thesis
    proof (intro conjI allI impI)
      show "(SublayerConnection_forward self g x sublayer = Inl RuntimeError)
              = (broadcast_shapes (shape x) (shape y) = None)"
        using Some r by (simp add: fw)
      show "\<exists>r g2. SublayerConnection_forward self g x sublayer = Inr (r, g2) \<and> shape r = s'"
        if "broadcast_shapes (shape x) (shape y) = Some s'" for s'
        using that Some r by (simp add: fw)
      show "SublayerConnection_forward self g x sublayer
              = Inr (\<lparr>shape = shape x, data = map2 fadd (data x) (data ?d)\<rparr>,
                     snd (Dropout_tensor (sc_dropout self) g1 y))"
        if "shape y = shape x \<and> wf_tensor x \<and> wf_tensor y"
        using same that by (simp add: fw)
    qed
  qed
qed

theorem SublayerConnection_forward_broadcasts_witness:
  "LayerNorm_forward (sc_norm (SublayerConnection_init 2 0)) \<lparr>shape = [2], data = [Fin 0, Fin 0]\<rparr>
     = Inr \<lparr>shape = [2], data = [Fin 0, Fin 0]\<rparr> \<and>
   const_sublayer \<lparr>shape = [3], data = [Fin 1, Fin 2, Fin 3]\<rparr>
       \<lparr>shape = [2], data = [Fin 0, Fin 0]\<rparr> (const_generator 0)
     = Inr (\<lparr>shape = [3], data = [Fin 1, Fin 2, Fin 3]\<rparr>, const_generator 0) \<and>
   SublayerConnection_forward (SublayerConnection_init 2 0) (const_generator 0)
       \<lparr>shape = [2], data = [Fin 0, Fin 0]\<rparr>
       (const_sublayer \<lparr>shape = [3], data = [Fin 1, Fin 2, Fin 3]\<rparr>)
     = Inl RuntimeError"
proof -
  have n: "LayerNorm_forward (sc_norm (SublayerConnection_init 2 0))
             \<lparr>shape = [2], data = [Fin 0, Fin 0]\<rparr> = Inr \<lparr>shape = [2], data = [Fin 0, Fin 0]\<rparr>"
    by (rule LayerNorm_zero_row_example)
  have f: "const_sublayer \<lparr>shape = [3], data = [Fin 1, Fin 2, Fin 3]\<rparr>
             \<lparr>shape = [2], data = [Fin 0, Fin 0]\<rparr> (const_generator 0)
           = Inr (\<lparr>shape = [3], data = [Fin 1, Fin 2, Fin 3]\<rparr>, const_generator 0)"
    by (simp add: const_sublayer_def)
  have "broadcast_shapes [2] [3] = None" by (simp add: broadcast_shapes_def)
  then show ?thesis
    using SublayerConnection_forward_broadcasts
      [where sublayer = "const_sublayer \<lparr>shape = [3], data = [Fin 1, Fin 2, Fin 3]\<rparr>", OF n f]
      n f by simp
qed

text \<open>
  C7 as stated fails: a sublayer that returns a tensor of shape \<open>(1)\<close> for an input of
  shape \<open>(2)\<close> raises nothing, and the result is the broadcast sum.
\<close>

theorem SublayerConnection_no_shape_error_counterexample:
  "LayerNorm_forward (sc_norm (SublayerConnection_init 2 0)) \<lparr>shape = [2], data = [Fin 0, Fin 0]\<rparr>
     = Inr \<lparr>shape = [2], data = [Fin 0, Fin 0]\<rparr> \<and>
   shape \<lparr>shape = [1], data = [Fin 5]\<rparr> \<noteq> shape \<lparr>shape = [2], data = [Fin 0, Fin 0]\<rparr> \<and>
   SublayerConnection_forward (SublayerConnection_init 2 0) (const_generator 0)
       \<lparr>shape = [2], data = [Fin 0, Fin 0]\<rparr> (const_sublayer \<lparr>shape = [1], data = [Fin 5]\<rparr>)
     = Inr (\<lparr>shape = [2], data = [Fin 5, Fin 5]\<rparr>, const_generator 0)"
  by (simp add: SublayerConnection_forward_def SublayerConnection_init_def const_sublayer_def
      Dropout_tensor_def LayerNorm_forward_def LayerNorm_init_def Let_def and_then_def binop_def
      broadcast_shapes_def pad_shape_def tmean_def tstd_def tadd_scalar_def rows_def
      last_dim_def keepdim_shape_def chunks_def mean_row_def std_row_def fsum_def fsub_def
      upt_conv_Cons numeral_2_eq_2)

subsection \<open>PositionalEncoding\<close>

lemma div_term_nth:
  assumes "0 < D" "i < (D + 1) div 2"
  shows "real pos * div_term D ! i = real pos / 10000 powr (real (2 * i) / real D)"
proof -
  have "exp (real (2 * i) * - (ln 10000 / real D)) = inverse (10000 powr (real (2 * i) / real D))"
    by (simp add: powr_def exp_minus [symmetric])
  then show ?thesis using assms by (simp add: div_term_def divide_inverse)
qed

lemma bget_nth: "i < length xs \<Longrightarrow> bget xs i = xs ! i"
  by (cases "length xs = 1") (simp_all add: bget_def)

lemma assign_sin:
  "assign_strided 0 D (replicate M (replicate D 0)) ((D + 1) div 2)
       (map (map sin) (outer (map real [0..<M]) (div_term D)))
     = Inr (map (\<lambda>pos. map (\<lambda>c. if even c then sin (real pos * div_term D ! (c div 2)) else 0)
                         [0..<D]) [0..<M])"
proof -
  have len: "length (div_term D) = (D + 1) div 2" by (simp add: div_term_def)
  have "c div 2 < (D + 1) div 2" if "c < D" for c using that by linarith
  then show ?thesis
    unfolding assign_strided_def Let_def outer_def
    by (auto intro!: nth_equalityI simp: bget_nth len)
qed

lemma assign_cos:
  assumes "even D \<or> D = 1"
  shows "assign_strided 1 D
       (map (\<lambda>pos. map (\<lambda>c. if even c then sin (real pos * div_term D ! (c div 2)) else 0)
                         [0..<D]) [0..<M])
       ((D + 1) div 2)
       (map (map cos) (outer (map real [0..<M]) (div_term D)))
     = Inr (pe_closed D M)"
proof -
  have len: "length (div_term D) = (D + 1) div 2" by (simp add: div_term_def)
  have w: "(D + 1) div 2 = D div 2 \<or> (D + 1) div 2 = 1" using assms by auto
  have idx: "(c - 1) div 2 < (D + 1) div 2" if "c < D" for c using that by linarith
  have odd: "Suc 0 \<le> c \<and> even (c - Suc 0) \<longleftrightarrow> odd c" for c by (cases c) auto
  have pos: "Suc 0 \<le> c" if "odd c" for c using that by (cases c) auto
  show ?thesis
    unfolding assign_strided_def Let_def pe_closed_def outer_def
    using w by (auto intro!: nth_equalityI simp: bget_nth len idx odd pos)
qed

lemma pe_table_closed:
  assumes "0 < D" "even D \<or> D = 1"
  shows "pe_table D M = Inr (pe_closed D M)"
proof -
  have len: "length (div_term D) = (D + 1) div 2" by (simp add: div_term_def)
  have "pe_table D M =
          and_then (assign_strided 0 D (replicate M (replicate D 0)) ((D + 1) div 2)
              (map (map sin) (outer (map real [0..<M]) (div_term D))))
            (\<lambda>pe. assign_strided 1 D pe ((D + 1) div 2)
              (map (map cos) (outer (map real [0..<M]) (div_term D))))"
    using assms(1) unfolding pe_table_def Let_def len by simp
  also have "\<dots> = Inr (pe_closed D M)"
    unfolding assign_sin and_then_def sum.case by (rule assign_cos [OF assms(2)])
  finally show ?thesis .
qed

text \<open>
  For an even \<open>d_model\<close> (and for \<open>d_model = 1\<close>) the constructor builds the
  table of the closed formula: \<open>sin(pos / 10000\<^bsup>2i/D\<^esup>)\<close> in column \<open>2i\<close> and
  \<open>cos(pos / 10000\<^bsup>2i/D\<^esup>)\<close> in column \<open>2i + 1\<close>.
\<close>

lemma pe_table_even:
  assumes D: "0 < D" "even D \<or> D = 1"
  shows "\<exists>T. pe_table D M = Inr T \<and> length T = M \<and>
           (\<forall>pos<M. length (T ! pos) = D \<and>
              (\<forall>i. (2 * i < D \<longrightarrow>
                       T ! pos ! (2 * i) = sin (real pos / 10000 powr (real (2 * i) / real D))) \<and>
                   (2 * i + 1 < D \<longrightarrow>
                       T ! pos ! (2 * i + 1) = cos (real pos / 10000 powr (real (2 * i) / real D)))))"
proof -
  have s: "pe_closed D M ! pos ! (2 * i) = sin (real pos / 10000 powr (real (2 * i) / real D))"
    if "pos < M" "2 * i < D" for pos i
  proof -
    have "i < (D + 1) div 2" using that(2) by linarith
    from div_term_nth [OF D(1) this, of pos] that show ?thesis by (simp add: pe_closed_def)
  qed
  have c: "pe_closed D M ! pos ! (2 * i + 1) = cos (real pos / 10000 powr (real (2 * i) / real D))"
    if "pos < M" "2 * i + 1 < D" for pos i
  proof -
    have "i < (D + 1) div 2" using that(2) by linarith
    from div_term_nth [OF D(1) this, of pos] that show ?thesis by (simp add: pe_closed_def)
  qed
  have "length (pe_closed D M) = M" "\<And>pos. pos < M \<Longrightarrow> length (pe_closed D M ! pos) = D"
    by (simp_all add: pe_closed_def)
  then show ?thesis using pe_table_closed [OF D] s c by auto
qed

lemma pe_table_row0:
  assumes "0 < D" "even D \<or> D = 1" "0 < M"
  shows "\<exists>T. pe_table D M = Inr T \<and> T ! 0 = map (\<lambda>c. if even c then 0 else 1) [0..<D]"
  using assms by (simp add: pe_table_closed pe_closed_def)

lemma assign_strided_shape:
  assumes "assign_strided start D P w src = Inr T" "length P = M" "length src = M"
  shows "length T = M \<and> (\<forall>r\<in>set T. length r = D)"
proof -
  have T: "T = map2 (\<lambda>row srow.
                  map (\<lambda>c. if start \<le> c \<and> even (c - start)
                            then bget srow ((c - start) div 2) else row ! c) [0..<D]) P src"
    using assms(1) by (simp add: assign_strided_def Let_def split: if_splits)
  show ?thesis unfolding T using assms(2,3) by (auto simp: in_set_zip)
qed

lemma pe_table_shape:
  assumes "pe_table D M = Inr T"
  shows "length T = M \<and> (\<forall>r\<in>set T. length r = D)"
proof -
  let ?ang = "outer (map real [0..<M]) (div_term D)"
  from assms obtain T1 where
    1: "assign_strided 0 D (replicate M (replicate D 0)) (length (div_term D)) (map (map sin) ?ang) = Inr T1"
    and 2: "assign_strided 1 D T1 (length (div_term D)) (map (map cos) ?ang) = Inr T"
    by (auto simp: pe_table_def Let_def and_then_def split: if_splits sum.splits)
  have la: "length ?ang = M" by (simp add: outer_def)
  have "length T1 = M" using assign_strided_shape [OF 1, of M] la by simp
  then show ?thesis using assign_strided_shape [OF 2, of M] la by simp
qed

lemma take_concat_rect:
  "\<forall>r\<in>set T. length r = D \<Longrightarrow> take (L * D) (concat T) = concat (take L T)"
proof (induction T arbitrary: L)
  case Nil
  then show ?case by simp
next
  case (Cons r T)
  show ?case
  proof (cases L)
    case 0
    then show ?thesis by simp
  next
    case (Suc k)
    then show ?thesis using Cons by simp
  qed
qed

lemma length_concat_rect:
  "\<forall>r\<in>set T. length r = D \<Longrightarrow> length (concat T) = length T * D"
  by (induction T) simp_all

lemma expand_batch:
  assumes "length ys = prod_list s"
  shows "expand (Suc 0 # s) (N # s) ys = concat (replicate N ys)"
proof (cases "Suc 0 = N")
  case True
  have "chunks (Suc 0) (prod_list s) ys = [ys]" using assms by (simp add: chunks_def)
  then show ?thesis using True [symmetric] assms by (simp add: expand_same)
next
  case False
  then show ?thesis using assms by (simp add: expand_same)
qed

lemma bshape_rev_append:
  "bshape_rev (xs @ us) (xs @ vs) = map_option ((@) xs) (bshape_rev us vs)"
  by (induction xs) (simp_all add: option.map_comp comp_def option.map_ident)

lemma broadcast_shapes_batch: "broadcast_shapes (N # s) (Suc 0 # s) = Some (N # s)"
  by (simp add: broadcast_shapes_def bshape_rev_append)

lemma binop_batch:
  assumes "shape x = N # s" "wf_tensor x" "length ys = prod_list s"
  shows "binop f x \<lparr>shape = Suc 0 # s, data = ys\<rparr>
           = Inr \<lparr>shape = N # s, data = map2 f (data x) (concat (replicate N ys))\<rparr>"
proof -
  have "expand (N # s) (N # s) (data x) = data x"
    using assms(1,2) by (intro expand_same) (simp add: wf_tensor_def)
  then show ?thesis
    using assms by (simp add: binop_def broadcast_shapes_batch pad_shape_def expand_batch
        del: expand.simps)
qed

text \<open>
  \<open>forward\<close> adds the first \<open>L\<close> rows of the table to every batch element of an
  input of shape \<open>(N, L, D)\<close> with \<open>L \<le> max_len\<close>, and applies dropout to the sum.
\<close>

lemma PositionalEncoding_forward_adds:
  assumes init: "PositionalEncoding_init D p M = Inr self"
    and x: "shape x = [N, L, D]" "wf_tensor x" and L: "L \<le> M"
  shows "\<exists>T. pe_table D M = Inr T \<and>
           PositionalEncoding_forward self g x =
             Inr (Dropout_tensor (pe_dropout self) g
                    \<lparr>shape = [N, L, D],
                     data = map2 fadd (data x)
                              (concat (replicate N (map Fin (concat (take L T)))))\<rparr>)"
proof -
  from init obtain T where T: "pe_table D M = Inr T"
    and self: "self = \<lparr>pe_dropout = \<lparr>prob = p, training = True\<rparr>,
                       pe = \<lparr>shape = [1, M, D], data = map Fin (concat T)\<rparr>\<rparr>"
    by (auto simp: PositionalEncoding_init_def and_then_def split: sum.splits)
  note sh = pe_table_shape [OF T]
  let ?ys = "map Fin (concat (take L T))"
  have rect: "\<forall>r\<in>set (take L T). length r = D" using sh by (auto dest: in_set_takeD)
  have ys: "take (L * D) (map Fin (concat T)) = ?ys"
    using sh by (simp add: take_map take_concat_rect)
  have len: "length ?ys = prod_list [L, D]"
    using length_concat_rect [OF rect] sh L by simp
  have "binop fadd x \<lparr>shape = Suc 0 # [L, D], data = ?ys\<rparr>
          = Inr \<lparr>shape = N # [L, D], data = map2 fadd (data x) (concat (replicate N ?ys))\<rparr>"
    using x len by (intro binop_batch) simp_all
  then have "PositionalEncoding_forward self g x =
               Inr (Dropout_tensor (pe_dropout self) g
                      \<lparr>shape = [N, L, D], data = map2 fadd (data x) (concat (replicate N ?ys))\<rparr>)"
    using x(1) L by (simp add: PositionalEncoding_forward_def self Let_def and_then_def ys min_def)
  then show ?thesis using T by blast
qed

lemma pe_table_odd:
  assumes "odd D" "3 \<le> D"
  shows "pe_table D M = Inl RuntimeError"
proof -
  have "(D + 1) div 2 \<noteq> D div 2" "(D + 1) div 2 \<noteq> 1" using assms by presburger+
  then show ?thesis
    using assms(2)
    by (simp add: pe_table_def Let_def and_then_def assign_strided_def div_term_def)
qed

text \<open>
  C9. The formula of the table holds wherever the constructor returns, but the constructor
  does not return for every model dimension: for an odd \<open>d_model\<close> from 3 on, the
  cosine columns are one fewer than the entries of \<open>div_term\<close> and the second
  assignment raises. At \<open>d_model = 3\<close>, \<open>dropout = 0\<close> and \<open>max_len = 1\<close>:
\<close>

theorem PositionalEncoding_odd_d_model_raises:
  "PositionalEncoding_init 3 0 1 = Inl RuntimeError"
  by (simp add: PositionalEncoding_init_def and_then_def pe_table_odd)


subsection \<open>Multi-head attention with relative positions\<close>

lemma project_one: "project (identity_linear (Suc 0)) (Suc 0) (Suc 0) (Suc 0) [[[0]]] = [[[[0]]]]"
  by (simp add: project_def view4_def transpose12_def Linear_forward_def identity_linear_def
      chunks_def dot_def Let_def)

lemma embeddings_one: "generate_relative_positions_embeddings (Suc 0) (Suc 0) (Suc 0) 0 g
   = Inr ([[[draws g (offset g)]]], g\<lparr>offset := offset g + 1\<rparr>)"
  by (simp add: generate_relative_positions_embeddings_def
  generate_relative_positions_matrix_def Embedding_init_def Embedding_forward_def chunks_def next_draws_def arange_def clamp_def fits_int64_def wrap64_def and_then_def Let_def)

lemma relative_attn_inner_one_T:
  "relative_attn_inner [[[[a]]]] [[[[b]]]] [[[c]]] True = Inr [[[[a * b + a * c]]]]"
  by (simp add: relative_attn_inner_def batched_matmul4_def batched_matmul3_def view_permute_def
      shape_of4_def broadcast_shapes_def bget_def size_last_def chunks_def and_then_def
      matmul_def dot_def tadd4_def
      transpose_last2_def Let_def)

lemma relative_attn_inner_one_F:
  "relative_attn_inner [[[[a]]]] [[[[b]]]] [[[c]]] False = Inr [[[[a * b + a * c]]]]"
  by (simp add: relative_attn_inner_def batched_matmul4_def batched_matmul3_def view_permute_def
      shape_of4_def broadcast_shapes_def bget_def size_last_def chunks_def and_then_def
      matmul_def dot_def tadd4_def
      transpose_last2_def Let_def)

lemma view3_one: "view3 (Suc 0) (Suc 0) (transpose12 [[[[a]]]]) = [[[a]]]"
  by (simp add: view3_def transpose12_def chunks_def Let_def)

lemma Linear_identity_one: "Linear_forward (identity_linear (Suc 0)) [[[a]]] = [[[a]]]"
  by (simp add: Linear_forward_def identity_linear_def dot_def)

lemma rpr1_forward:
  "MultiHeadedAttention_RPR_forward rpr1 g [[[0]]] [[[0]]] [[[0]]] None
     = Inr ([[[draws g (offset g + 1)]]], g\<lparr>offset := offset g + 2\<rparr>)"
  by (simp add: MultiHeadedAttention_RPR_forward_def rpr1_def project_one embeddings_one relative_attn_inner_one_T relative_attn_inner_one_F view3_one
      softmax_def softmax_row_def Dropout_forward_def and_then_def Let_def Linear_identity_one)

lemma upt_examples: "[0..<4] = [0, 1, 2, 3]" "[0..<3] = [0, 1, 2]" "[0..<2] = [0, 1]" "[0..<8] = [0,1,2,3,4,5,6,7]"
  "[0..<12] = [0,1,2,3,4,5,6,7,8,9,10,11]"
  by (simp_all add: upt_conv_Cons)

lemma replicate_four: "replicate 4 x = [x, x, x, x]"
  by (simp add: numeral_eq_Suc)

lemma Linear_identity_four: "Linear_forward (identity_linear 4) [[[a, b, c, d], [e, f, g, h]]]
             = [[[a, b, c, d], [e, f, g, h]]]"
  by (simp add: Linear_forward_def identity_linear_def dot_def upt_examples replicate_four)

lemma view4_four: "view4 (Suc 0) (Suc 0) 4 [[[a, b, c, d], [e, f, g, h]]]
             = [[[[a, b, c, d]], [[e, f, g, h]]]]"
  by (simp add: view4_def chunks_def Let_def upt_examples)

lemma project_four: "project (identity_linear 4) (Suc 0) (Suc 0) 4 [[[a, b, c, d], [e, f, g, h]]]
             = [[[[a, b, c, d], [e, f, g, h]]]]"
  by (simp add: project_def Linear_identity_four view4_four transpose12_def)

lemma view3_four: "view3 (Suc 0) 4 (transpose12 [[[[a, b, c, d], [e, f, g, h]]]])
             = [[[a, b, c, d], [e, f, g, h]]]"
  by (simp add: view3_def transpose12_def chunks_def Let_def upt_examples)

lemma embeddings_four: "generate_relative_positions_embeddings (Suc (Suc 0)) (Suc (Suc 0)) 4 1
       \<lparr>draws = (\<lambda>i. 0), offset = n\<rparr>
   = Inr ([[[0,0,0,0],[0,0,0,0]],[[0,0,0,0],[0,0,0,0]]], \<lparr>draws = (\<lambda>i. 0), offset = n + 12\<rparr>)"
  by (simp add: generate_relative_positions_embeddings_def
  generate_relative_positions_matrix_def Embedding_init_def Embedding_forward_def chunks_def next_draws_def arange_def clamp_def fits_int64_def wrap64_def and_then_def Let_def upt_examples)

lemma scores_four: "tdiv4 (matmul4 [[[[0, 0, 0, 0], [2, 0, 0, 0]]]] (transpose_last2 [[[[0, 0, 0, 0], [2, 0, 0, 0]]]])) (sqrt (real (size_last [[[[0, 0, 0, 0], [2, 0, 0, 0::real]]]])))
   = [[[[0, 0], [0, 2]]]]"
  by (simp add: tdiv4_def matmul4_def transpose_last2_def matmul_def dot_def size_last_def)

lemma softmax_two: "softmax [[[[0, 0], [0, t]]]] = [[[[1 / 2, 1 / 2], [1 / (1 + exp t), exp t / (1 + exp t)]]]]"
  by (simp add: softmax_def softmax_row_def)

lemma matmul4_four: "matmul4 [[[[p, q], [r, s]]]] [[[[0, 0, 0, 0], [2, 0, 0, 0]]]]
   = [[[[2 * q, 0, 0, 0], [2 * s, 0, 0, 0]]]]"
  by (simp add: matmul4_def matmul_def dot_def)

lemma attention_four: "attention [[[[0, 0, 0, 0], [2, 0, 0, 0]]]] [[[[0, 0, 0, 0], [2, 0, 0, 0]]]] [[[[0, 0, 0, 0], [2, 0, 0, 0]]]] None (Some \<lparr>prob = 0, training = False\<rparr>) g
   = (([[[[1, 0, 0, 0], [2 * (exp 2 / (1 + exp 2)), 0, 0, 0]]]],
       [[[[1 / 2, 1 / 2], [1 / (1 + exp 2), exp 2 / (1 + exp 2)]]]]), g)"
  by (simp add: attention_def scores_four softmax_two matmul4_four Dropout_forward_def Let_def)

lemma relative_attn_inner_four_T: "relative_attn_inner [[[[0, 0, 0, 0], [2, 0, 0, 0]]]] [[[[0, 0, 0, 0], [2, 0, 0, 0]]]]
     [[[0,0,0,0],[0,0,0,0]],[[0,0,0,0],[0,0,0,0]]] True = Inr [[[[0, 0], [0, 4]]]]"
  by (simp add: relative_attn_inner_def batched_matmul4_def batched_matmul3_def view_permute_def
      shape_of4_def broadcast_shapes_def bget_def size_last_def chunks_def and_then_def
      matmul_def dot_def tadd4_def
      transpose_last2_def Let_def upt_examples numeral_2_eq_2 [symmetric])

lemma relative_attn_inner_four_F: "relative_attn_inner [[[[p, q], [r, s]]]] [[[[0, 0, 0, 0], [2, 0, 0, 0]]]]
     [[[0,0,0,0],[0,0,0,0]],[[0,0,0,0],[0,0,0,0]]] False = Inr [[[[2 * q, 0, 0, 0], [2 * s, 0, 0, 0]]]]"
  by (simp add: relative_attn_inner_def batched_matmul4_def batched_matmul3_def view_permute_def
      shape_of4_def broadcast_shapes_def bget_def size_last_def chunks_def and_then_def
      matmul_def dot_def tadd4_def
      transpose_last2_def Let_def upt_examples numeral_2_eq_2 [symmetric])

lemma mha4_forward:
  "MultiHeadedAttention_forward mha4 g x4 x4 x4 None
     = ([[[1, 0, 0, 0], [2 * (exp 2 / (1 + exp 2)), 0, 0, 0]]],
        mha4\<lparr>mha_attn := Some [[[[1 / 2, 1 / 2], [1 / (1 + exp 2), exp 2 / (1 + exp 2)]]]]\<rparr>, g)"
  by (simp add: MultiHeadedAttention_forward_def mha4_def x4_def project_four attention_four view3_four Linear_identity_four Let_def)

lemma rpr4_forward:
  "MultiHeadedAttention_RPR_forward rpr4 (const_generator 0) x4 x4 x4 None
     = Inr ([[[1, 0, 0, 0], [2 * (exp 4 / (1 + exp 4)), 0, 0, 0]]],
            (const_generator 0)\<lparr>offset := 24\<rparr>)"
  by (simp add: MultiHeadedAttention_RPR_forward_def rpr4_def x4_def project_four embeddings_four relative_attn_inner_four_T
      softmax_two relative_attn_inner_four_F view3_four Linear_identity_four Dropout_forward_def and_then_def Let_def const_generator_def)

lemma exp_ratio_neq: "exp 2 / (1 + exp 2) \<noteq> exp 4 / (1 + exp (4::real))"
proof
  assume "exp 2 / (1 + exp 2) = exp 4 / (1 + exp (4::real))"
  moreover have "0 < 1 + exp (2::real)" "0 < 1 + exp (4::real)"
    by (simp_all add: add_pos_pos)
  ultimately have "exp 2 * (1 + exp 4) = exp 4 * (1 + exp (2::real))"
    by (simp add: frac_eq_eq)
  then have "exp (2::real) = exp 4" by (simp add: algebra_simps)
  then show False by simp
qed

lemma project_one_len:
  "project (identity_linear (Suc 0)) (Suc 0) (Suc 0) (Suc 0) [[[0], [0]]] = [[[[0], [0]]]]"
  "project (identity_linear (Suc 0)) (Suc 0) (Suc 0) (Suc 0) [[[0], [0], [0]]] = [[[[0], [0], [0]]]]"
  by (simp_all add: project_def view4_def transpose12_def Linear_forward_def identity_linear_def
      chunks_def dot_def Let_def upt_examples numeral_2_eq_2 [symmetric] numeral_3_eq_3 [symmetric])

lemma embeddings_two:
  "generate_relative_positions_embeddings (Suc (Suc 0)) (Suc (Suc 0)) (Suc 0) 0 g
     = Inr ([[[draws g (offset g)], [draws g (offset g)]],
             [[draws g (offset g)], [draws g (offset g)]]], g\<lparr>offset := offset g + 1\<rparr>)"
  by (simp add: generate_relative_positions_embeddings_def generate_relative_positions_matrix_def
      Embedding_init_def Embedding_forward_def chunks_def next_draws_def arange_def clamp_def
      fits_int64_def wrap64_def and_then_def Let_def upt_examples numeral_2_eq_2 [symmetric])

lemma relative_attn_inner_raises:
  "relative_attn_inner [[[[0], [0]]]] [[[[0], [0], [0]]]] [[[a], [b]], [[c], [d]]] True
     = Inl RuntimeError"
  by (simp add: relative_attn_inner_def batched_matmul4_def batched_matmul3_def view_permute_def
      shape_of4_def broadcast_shapes_def bget_def size_last_def chunks_def and_then_def
      matmul_def dot_def tadd4_def transpose_last2_def Let_def upt_examples
      numeral_2_eq_2 [symmetric] numeral_3_eq_3 [symmetric])

text \<open>
  With a key of another length than the query the addition of the two terms of the
  logits raises, as in the library.
\<close>

lemma RPR_forward_key_length_raises:
  "MultiHeadedAttention_RPR_forward rpr1 g [[[0], [0]]] [[[0], [0], [0]]] [[[0], [0], [0]]] None
     = Inl RuntimeError"
  by (simp add: MultiHeadedAttention_RPR_forward_def rpr1_def project_one_len embeddings_two
      relative_attn_inner_raises and_then_def Let_def)

lemma RPR_forward_ignores_mask:
  "MultiHeadedAttention_RPR_forward self g query key value mask_opt
     = MultiHeadedAttention_RPR_forward self g query key value None"
  by (simp add: MultiHeadedAttention_RPR_forward_def Let_def)

text \<open>
  C1. Two \<open>forward\<close> calls of \<open>MultiHeadedAttention_RPR\<close> on the same module, with
  the same query, key, value and mask, in inference mode with dropout probability 0,
  should return equal outputs. They do not: each call draws its two embedding tables
  from the generator. On the module \<open>rpr1\<close> and the input \<open>[[[0]]]\<close> the first call
  returns \<open>[[[1]]]\<close> and the second, from the generator state the first one left,
  \<open>[[[3]]]\<close>.
\<close>

theorem RPR_forward_not_deterministic:
  "MultiHeadedAttention_RPR_forward rpr1 counting_generator [[[0]]] [[[0]]] [[[0]]] None
     = Inr ([[[1]]], counting_generator\<lparr>offset := 2\<rparr>) \<and>
   MultiHeadedAttention_RPR_forward rpr1 (counting_generator\<lparr>offset := 2\<rparr>)
       [[[0]]] [[[0]]] [[[0]]] None
     = Inr ([[[3]]], counting_generator\<lparr>offset := 4\<rparr>)"
  by (simp add: rpr1_forward counting_generator_def)

text \<open>
  C2. The relation tables should be created once, when the module is built, and only read
  by \<open>forward\<close>. They are not: the constructor creates none, and every call of
  \<open>generate_relative_positions_embeddings\<close>, two in each \<open>forward\<close>, builds a new
  table from the generator. For length 2, depth 1 and distance 1 the first call looks the
  matrix up in the table \<open>0, 1, 2\<close> and the next one in the table \<open>3, 4, 5\<close>.
\<close>

theorem RPR_forward_creates_tables:
  "generate_relative_positions_embeddings 2 2 1 1 counting_generator
     = Inr ([[[1], [2]], [[0], [1]]], counting_generator\<lparr>offset := 3\<rparr>) \<and>
   generate_relative_positions_embeddings 2 2 1 1 (counting_generator\<lparr>offset := 3\<rparr>)
     = Inr ([[[4], [5]], [[3], [4]]], counting_generator\<lparr>offset := 6\<rparr>)"
  by (simp add: generate_relative_positions_embeddings_def generate_relative_positions_matrix_def
      Embedding_init_def Embedding_forward_def chunks_def next_draws_def arange_def clamp_def
      fits_int64_def wrap64_def
      and_then_def Let_def counting_generator_def upt_examples)

text \<open>
  C3. With all-zero relation tables, dropout disabled and the same four linear layers,
  \<open>MultiHeadedAttention_RPR.forward\<close> should return what
  \<open>MultiHeadedAttention.forward\<close> returns. It does not: the standard module divides
  the scores by \<open>sqrt d_k\<close> and the relative one does not. For one head of width 4 and
  the input \<open>x4\<close>, with a generator that only hands out zeros, the second output row
  starts with \<open>2 e\<^sup>2 / (1 + e\<^sup>2)\<close> in the standard module and with
  \<open>2 e\<^sup>4 / (1 + e\<^sup>4)\<close> in the relative one.
\<close>

theorem RPR_zero_tables_differs_from_standard:
  "rpr_linears rpr4 = mha_linears mha4 \<and>
   generate_relative_positions_embeddings 2 2 4 1 (const_generator 0)
     = Inr ([[[0, 0, 0, 0], [0, 0, 0, 0]], [[0, 0, 0, 0], [0, 0, 0, 0]]],
            (const_generator 0)\<lparr>offset := 12\<rparr>) \<and>
   fst (MultiHeadedAttention_forward mha4 (const_generator 0) x4 x4 x4 None)
     = [[[1, 0, 0, 0], [2 * (exp 2 / (1 + exp 2)), 0, 0, 0]]] \<and>
   MultiHeadedAttention_RPR_forward rpr4 (const_generator 0) x4 x4 x4 None
     = Inr ([[[1, 0, 0, 0], [2 * (exp 4 / (1 + exp 4)), 0, 0, 0]]],
            (const_generator 0)\<lparr>offset := 24\<rparr>) \<and>
   2 * (exp 2 / (1 + exp 2)) \<noteq> 2 * (exp 4 / (1 + exp (4::real)))"
proof (intro conjI)
  show "rpr_linears rpr4 = mha_linears mha4" by (simp add: rpr4_def mha4_def)
  show "generate_relative_positions_embeddings 2 2 4 1 (const_generator 0)
     = Inr ([[[0, 0, 0, 0], [0, 0, 0, 0]], [[0, 0, 0, 0], [0, 0, 0, 0]]],
            (const_generator 0)\<lparr>offset := 12\<rparr>)"
    using embeddings_four [of 0] by (simp add: const_generator_def numeral_2_eq_2)
  show "fst (MultiHeadedAttention_forward mha4 (const_generator 0) x4 x4 x4 None)
     = [[[1, 0, 0, 0], [2 * (exp 2 / (1 + exp 2)), 0, 0, 0]]]"
    by (simp add: mha4_forward)
  show "MultiHeadedAttention_RPR_forward rpr4 (const_generator 0) x4 x4 x4 None
     = Inr ([[[1, 0, 0, 0], [2 * (exp 4 / (1 + exp 4)), 0, 0, 0]]],
            (const_generator 0)\<lparr>offset := 24\<rparr>)"
    by (rule rpr4_forward)
  show "2 * (exp 2 / (1 + exp 2)) \<noteq> 2 * (exp 4 / (1 + exp (4::real)))"
    using exp_ratio_neq by simp
qed


end
